theory Spec2Isabelle
  imports Main
begin

section \<open>Python strings\<close>

text \<open>
  A Python \<open>str\<close> is modelled as a \<open>string\<close> whose characters are the code points
  0 to 255. The character classes below are the ones Python assigns to these code points.
\<close>

definition py_isspace :: "char \<Rightarrow> bool" where
  \<comment> \<open>\<open>str.isspace\<close> on one character; also the class \<open>\s\<close> of \<open>re\<close> on \<open>str\<close> patterns\<close>
  "py_isspace c = (c \<in> set [CHR 0x09, CHR 0x0A, CHR 0x0B, CHR 0x0C, CHR 0x0D,
                              CHR 0x1C, CHR 0x1D, CHR 0x1E, CHR 0x1F, CHR 0x20,
                              CHR 0x85, CHR 0xA0])"

definition py_lower_char :: "char \<Rightarrow> char" where
  \<comment> \<open>\<open>str.lower\<close> on one character: A-Z and the upper-case letters of Latin-1\<close>
  "py_lower_char c =
     (let n = (of_char c :: nat)
      in if (65 \<le> n \<and> n \<le> 90) \<or> (192 \<le> n \<and> n \<le> 222 \<and> n \<noteq> 215)
         then char_of (n + 32) else c)"

definition py_lower :: "string \<Rightarrow> string" where
  "py_lower s = map py_lower_char s"

definition py_strip :: "string \<Rightarrow> string" where
  \<comment> \<open>\<open>s.strip()\<close>: leading and trailing whitespace removed\<close>
  "py_strip s = rev (dropWhile py_isspace (rev (dropWhile py_isspace s)))"

definition py_rstrip :: "string \<Rightarrow> string \<Rightarrow> string" where
  \<comment> \<open>\<open>s.rstrip(chars)\<close>: every trailing character that occurs in \<open>chars\<close> removed\<close>
  "py_rstrip chars s = rev (dropWhile (\<lambda>c. c \<in> set chars) (rev s))"

fun py_startswith :: "string \<Rightarrow> string \<Rightarrow> bool" where
  "py_startswith [] s = True"
| "py_startswith (p # ps) [] = False"
| "py_startswith (p # ps) (c # cs) = (p = c \<and> py_startswith ps cs)"

fun py_in :: "string \<Rightarrow> string \<Rightarrow> bool" where
  \<comment> \<open>\<open>sub in s\<close> on strings: \<open>sub\<close> occurs in \<open>s\<close> as a contiguous substring\<close>
  "py_in sub [] = (sub = [])"
| "py_in sub (c # cs) = (py_startswith sub (c # cs) \<or> py_in sub cs)"

abbreviation (input) nl :: char where
  "nl \<equiv> CHR 0x0A"

section \<open>Regular-expression substitution\<close>

text \<open>
  \<open>re.sub(pattern, repl, text)\<close> scans \<open>text\<close> from the left. Where the pattern matches
  at the current position the match is replaced by \<open>repl\<close> and the scan goes on behind the
  match; elsewhere the character is kept. A matcher gives the text behind the match that
  starts at the head of its argument. Every pattern of this program matches at least one
  character.
\<close>

fun re_sub :: "(string \<Rightarrow> string option) \<Rightarrow> string \<Rightarrow> string \<Rightarrow> string" where
  "re_sub m repl [] = []"
| "re_sub m repl (c # cs) =
     (case m (c # cs) of
        None \<Rightarrow> c # re_sub m repl cs
      | Some rest \<Rightarrow>
          if length rest \<le> length cs then repl @ re_sub m repl rest
          else c # re_sub m repl cs)"

definition match_br :: "string \<Rightarrow> string option" where
  \<comment> \<open>\<open><br\s*/?>\<close> with \<open>re.IGNORECASE\<close>\<close>
  "match_br s =
     (case s of
        a # b # r # cs \<Rightarrow>
          if a = CHR ''<'' \<and> py_lower_char b = CHR ''b'' \<and> py_lower_char r = CHR ''r''
          then (case dropWhile py_isspace cs of
                  [] \<Rightarrow> None
                | x # ys \<Rightarrow>
                    if x = CHR ''/''
                    then (case ys of [] \<Rightarrow> None
                          | y # zs \<Rightarrow> if y = CHR ''>'' then Some zs else None)
                    else if x = CHR ''>'' then Some ys else None)
          else None
      | _ \<Rightarrow> None)"

definition match_block :: "string \<Rightarrow> string option" where
  \<comment> \<open>the group \<open>(p|div|h[1-6]|li|tr)\<close> with \<open>re.IGNORECASE\<close>. The alternatives begin
      with different letters, so at most one of them matches at a position.\<close>
  "match_block s =
     (if py_startswith ''p'' (py_lower (take 1 s)) then Some (drop 1 s)
      else if py_startswith ''div'' (py_lower (take 3 s)) then Some (drop 3 s)
      else if (case s of h # d # _ \<Rightarrow> py_lower_char h = CHR ''h'' \<and> d \<in> set ''123456''
               | _ \<Rightarrow> False) then Some (drop 2 s)
      else if py_startswith ''li'' (py_lower (take 2 s)) then Some (drop 2 s)
      else if py_startswith ''tr'' (py_lower (take 2 s)) then Some (drop 2 s)
      else None)"

definition match_close :: "string \<Rightarrow> string option" where
  \<comment> \<open>\<open></(p|div|h[1-6]|li|tr)>\<close> with \<open>re.IGNORECASE\<close>\<close>
  "match_close s =
     (case s of
        a # b # cs \<Rightarrow>
          if a = CHR ''<'' \<and> b = CHR ''/''
          then (case match_block cs of
                  None \<Rightarrow> None
                | Some r \<Rightarrow> (case r of [] \<Rightarrow> None
                             | y # zs \<Rightarrow> if y = CHR ''>'' then Some zs else None))
          else None
      | _ \<Rightarrow> None)"

definition match_open :: "string \<Rightarrow> string option" where
  \<comment> \<open>\<open><(p|div|h[1-6]|li|tr)[^>]*>\<close> with \<open>re.IGNORECASE\<close>\<close>
  "match_open s =
     (case s of
        a # cs \<Rightarrow>
          if a = CHR ''<''
          then (case match_block cs of
                  None \<Rightarrow> None
                | Some r \<Rightarrow> (case dropWhile (\<lambda>c. c \<noteq> CHR ''>'') r of [] \<Rightarrow> None
                             | y # zs \<Rightarrow> Some zs))
          else None
      | _ \<Rightarrow> None)"

definition match_tag :: "string \<Rightarrow> string option" where
  \<comment> \<open>\<open><[^>]+>\<close>\<close>
  "match_tag s =
     (case s of
        a # c # cs \<Rightarrow>
          if a = CHR ''<'' \<and> c \<noteq> CHR ''>''
          then (case dropWhile (\<lambda>c. c \<noteq> CHR ''>'') cs of [] \<Rightarrow> None
                | y # zs \<Rightarrow> Some zs)
          else None
      | _ \<Rightarrow> None)"

definition match_nl3 :: "string \<Rightarrow> string option" where
  \<comment> \<open>\<open>\n{3,}\<close>: a maximal run of at least three newlines\<close>
  "match_nl3 s =
     (if 3 \<le> length (takeWhile (\<lambda>c. c = CHR 0x0A) s)
      then Some (dropWhile (\<lambda>c. c = CHR 0x0A) s) else None)"

definition strip_html_tags :: "string \<Rightarrow> string" where
  \<comment> \<open>\<open>_strip_html_tags\<close> of confluence_tools.py\<close>
  "strip_html_tags html =
     (let text = re_sub match_br [CHR 0x0A] html;
          text = re_sub match_close [CHR 0x0A] text;
          text = re_sub match_open [] text;
          text = re_sub match_tag [] text;
          text = re_sub match_nl3 [CHR 0x0A, CHR 0x0A] text
      in py_strip text)"


fun occurs :: "(string \<Rightarrow> string option) \<Rightarrow> string \<Rightarrow> bool" where
  \<comment> \<open>the pattern matches at some position of the text\<close>
  "occurs m [] = False"
| "occurs m (c # cs) = (m (c # cs) \<noteq> None \<or> occurs m cs)"

section \<open>Python values\<close>

text \<open>
  The values that \<open>json\<close> decoding yields and that the tools return: \<open>None\<close>, booleans,
  integers, strings, lists and dictionaries (the items in insertion order). Floating-point
  numbers are not modelled.
\<close>

datatype json =
    JNull
  | JBool bool
  | JInt int
  | JStr string
  | JArr "json list"
  | JObj "(string \<times> json) list"

datatype exn_class =
    ValueError
  | RequestException
  | RequestValueError  \<comment> \<open>a subclass of both, as \<open>requests.exceptions.JSONDecodeError\<close>\<close>
  | AttributeError
  | TypeError
  | KeyError
  | OtherException

datatype exn = Exn exn_class string

definition is_ValueError :: "exn_class \<Rightarrow> bool" where
  "is_ValueError k = (k = ValueError \<or> k = RequestValueError)"

definition is_RequestException :: "exn_class \<Rightarrow> bool" where
  "is_RequestException k = (k = RequestException \<or> k = RequestValueError)"

definition bind_r :: "exn + 'a \<Rightarrow> ('a \<Rightarrow> exn + 'b) \<Rightarrow> exn + 'b" where
  \<comment> \<open>sequencing: an exception of the first step skips the rest\<close>
  "bind_r x f = (case x of Inl e \<Rightarrow> Inl e | Inr v \<Rightarrow> f v)"

fun map_r :: "('a \<Rightarrow> exn + 'b) \<Rightarrow> 'a list \<Rightarrow> exn + 'b list" where
  \<comment> \<open>a list comprehension whose element expression may raise\<close>
  "map_r f [] = Inr []"
| "map_r f (x # xs) = bind_r (f x) (\<lambda>y. bind_r (map_r f xs) (\<lambda>ys. Inr (y # ys)))"

fun py_get :: "json \<Rightarrow> string \<Rightarrow> json \<Rightarrow> exn + json" where
  \<comment> \<open>\<open>d.get(key, default)\<close>; only a dictionary has the method\<close>
  "py_get (JObj kvs) k d = Inr (case map_of kvs k of None \<Rightarrow> d | Some v \<Rightarrow> v)"
| "py_get _ k d = Inl (Exn AttributeError ''get'')"

fun py_getitem :: "json \<Rightarrow> string \<Rightarrow> exn + json" where
  \<comment> \<open>\<open>d[key]\<close> with a string key\<close>
  "py_getitem (JObj kvs) k =
     (case map_of kvs k of None \<Rightarrow> Inl (Exn KeyError k) | Some v \<Rightarrow> Inr v)"
| "py_getitem _ k = Inl (Exn TypeError ''subscript'')"

fun py_index0 :: "json \<Rightarrow> exn + json" where
  \<comment> \<open>\<open>x[0]\<close> on a value that is truthy\<close>
  "py_index0 (JArr (x # xs)) = Inr x"
| "py_index0 (JArr []) = Inl (Exn OtherException ''IndexError'')"
| "py_index0 (JStr (c # cs)) = Inr (JStr [c])"
| "py_index0 (JStr []) = Inl (Exn OtherException ''IndexError'')"
| "py_index0 (JObj kvs) = Inl (Exn KeyError ''0'')"
| "py_index0 _ = Inl (Exn TypeError ''subscript'')"

fun py_truthy :: "json \<Rightarrow> bool" where
  "py_truthy JNull = False"
| "py_truthy (JBool b) = b"
| "py_truthy (JInt i) = (i \<noteq> 0)"
| "py_truthy (JStr s) = (s \<noteq> [])"
| "py_truthy (JArr xs) = (xs \<noteq> [])"
| "py_truthy (JObj kvs) = (kvs \<noteq> [])"

fun py_iter :: "json \<Rightarrow> exn + json list" where
  \<comment> \<open>the elements a \<open>for\<close> loop visits\<close>
  "py_iter (JArr xs) = Inr xs"
| "py_iter (JObj kvs) = Inr (map (\<lambda>kv. JStr (fst kv)) kvs)"
| "py_iter (JStr s) = Inr (map (\<lambda>c. JStr [c]) s)"
| "py_iter _ = Inl (Exn TypeError ''iter'')"

fun py_lower_val :: "json \<Rightarrow> exn + string" where
  \<comment> \<open>\<open>x.lower()\<close>; only a string has the method\<close>
  "py_lower_val (JStr s) = Inr (py_lower s)"
| "py_lower_val _ = Inl (Exn AttributeError ''lower'')"

fun py_add1 :: "json \<Rightarrow> exn + json" where
  \<comment> \<open>\<open>x + 1\<close>; a boolean counts as 0 or 1\<close>
  "py_add1 (JInt i) = Inr (JInt (i + 1))"
| "py_add1 (JBool b) = Inr (JInt ((if b then 1 else 0) + 1))"
| "py_add1 _ = Inl (Exn TypeError ''+'')"

definition truthy_str :: "string option \<Rightarrow> bool" where
  \<comment> \<open>truth value of an optional string argument: neither \<open>None\<close> nor empty\<close>
  "truthy_str x = (case x of None \<Rightarrow> False | Some s \<Rightarrow> s \<noteq> [])"

subsection \<open>Formatting\<close>

definition py_fmt :: "string option \<Rightarrow> string" where
  \<comment> \<open>what an f-string field shows for an optional string\<close>
  "py_fmt x = (case x of None \<Rightarrow> ''None'' | Some s \<Rightarrow> s)"

definition digit_char :: "nat \<Rightarrow> char" where
  "digit_char d = ''0123456789abcdef'' ! (d mod 16)"

fun nat_digits :: "nat \<Rightarrow> string" where
  "nat_digits n = (if n < 10 then [digit_char n] else nat_digits (n div 10) @ [digit_char (n mod 10)])"

definition py_str_int :: "int \<Rightarrow> string" where
  \<comment> \<open>\<open>str(i)\<close> of an integer\<close>
  "py_str_int i = (if i < 0 then CHR ''-'' # nat_digits (nat (- i)) else nat_digits (nat i))"

definition py_isprintable :: "char \<Rightarrow> bool" where
  "py_isprintable c =
     (let n = (of_char c :: nat)
      in (32 \<le> n \<and> n \<le> 126) \<or> (161 \<le> n \<and> n \<noteq> 173))"

definition repr_char :: "char \<Rightarrow> char \<Rightarrow> string" where
  "repr_char quote c =
     (if c = quote \<or> c = CHR 0x5C then [CHR 0x5C, c]
      else if c = CHR 0x09 then [CHR 0x5C, CHR ''t'']
      else if c = CHR 0x0A then [CHR 0x5C, CHR ''n'']
      else if c = CHR 0x0D then [CHR 0x5C, CHR ''r'']
      else if \<not> py_isprintable c
      then [CHR 0x5C, CHR ''x'', digit_char (of_char c div 16), digit_char (of_char c mod 16)]
      else [c])"

definition py_repr_str :: "string \<Rightarrow> string" where
  \<comment> \<open>\<open>repr(s)\<close> of a string: single quotes unless the string has a single quote and no
      double quote\<close>
  "py_repr_str s =
     (let quote = (if CHR 0x27 \<in> set s \<and> CHR 0x22 \<notin> set s then CHR 0x22 else CHR 0x27)
      in quote # concat (map (repr_char quote) s) @ [quote])"

fun join :: "string \<Rightarrow> string list \<Rightarrow> string" where
  "join sep [] = []"
| "join sep [x] = x"
| "join sep (x # y # ys) = x @ sep @ join sep (y # ys)"

fun py_repr :: "json \<Rightarrow> string" where
  \<comment> \<open>\<open>repr(x)\<close>, which an f-string applies to a list or a dictionary\<close>
  "py_repr JNull = ''None''"
| "py_repr (JBool b) = (if b then ''True'' else ''False'')"
| "py_repr (JInt i) = py_str_int i"
| "py_repr (JStr s) = py_repr_str s"
| "py_repr (JArr xs) = ''['' @ join '', '' (map py_repr xs) @ '']''"
| "py_repr (JObj kvs) =
     ''{'' @ join '', '' (map (\<lambda>kv. py_repr_str (fst kv) @ '': '' @ py_repr (snd kv)) kvs) @ ''}''"


subsection \<open>Dictionaries under construction\<close>

fun dict_set :: "string \<Rightarrow> json \<Rightarrow> (string \<times> json) list \<Rightarrow> (string \<times> json) list" where
  \<comment> \<open>\<open>d[k] = v\<close>: a present key keeps its place, a new key goes last\<close>
  "dict_set k v [] = [(k, v)]"
| "dict_set k v (p # ps) = (if fst p = k then (k, v) # ps else p # dict_set k v ps)"

definition dict_update :: "(string \<times> json) list \<Rightarrow> (string \<times> json) list \<Rightarrow> (string \<times> json) list" where
  \<comment> \<open>\<open>d.update(other)\<close>\<close>
  "dict_update d other = foldl (\<lambda>acc kv. dict_set (fst kv) (snd kv) acc) d other"

fun set_opt :: "string \<Rightarrow> json option \<Rightarrow> (string \<times> json) list \<Rightarrow> (string \<times> json) list" where
  \<comment> \<open>\<open>if x is not None: d[k] = v\<close>\<close>
  "set_opt k None d = d"
| "set_opt k (Some v) d = dict_set k v d"

fun setdefault :: "string \<Rightarrow> string \<Rightarrow> (string \<times> string) list \<Rightarrow> (string \<times> string) list" where
  \<comment> \<open>\<open>headers.setdefault(k, v)\<close>\<close>
  "setdefault k v hs = (if k \<in> fst ` set hs then hs else hs @ [(k, v)])"

section \<open>Configuration and transport\<close>

record settings =
  confluence_url :: "string option"
  confluence_username :: "string option"
  confluence_password :: "string option"
  confluence_verify_ssl :: bool
  jira_url :: "string option"
  jira_username :: "string option"
  jira_password :: "string option"
  jira_verify_ssl :: bool

text \<open>
  Modelled from the spec: the properties \<open>settings.has_confluence\<close> and
  \<open>settings.has_jira\<close> of \<open>deepagents_cli.config\<close>, which is not among the sources.
  The spec derives \<open>is_configured\<close> as "all three credential fields set".
\<close>

definition has_confluence :: "settings \<Rightarrow> bool" where
  \<comment> \<open>Modelled from the spec: \<open>settings.has_confluence\<close>, all three fields set\<close>
  "has_confluence s =
     (confluence_url s \<noteq> None \<and> confluence_username s \<noteq> None \<and> confluence_password s \<noteq> None)"

definition has_jira :: "settings \<Rightarrow> bool" where
  \<comment> \<open>Modelled from the spec: \<open>settings.has_jira\<close>, all three fields set\<close>
  "has_jira s = (jira_url s \<noteq> None \<and> jira_username s \<noteq> None \<and> jira_password s \<noteq> None)"

record response =
  status_code :: int
  resp_text :: string
  body_json :: "json option"  \<comment> \<open>the decoded body; \<open>None\<close> when the body is not JSON\<close>

definition resp_ok :: "response \<Rightarrow> bool" where
  \<comment> \<open>\<open>resp.ok\<close> of \<open>requests\<close>: the status is no client or server error\<close>
  "resp_ok r = (\<not> (400 \<le> status_code r \<and> status_code r < 600))"

definition resp_json :: "response \<Rightarrow> exn + json" where
  \<comment> \<open>\<open>resp.json()\<close>: the decoding error is a \<open>ValueError\<close>\<close>
  "resp_json r =
     (case body_json r of None \<Rightarrow> Inl (Exn RequestValueError ''JSONDecodeError'')
      | Some j \<Rightarrow> Inr j)"

record request =
  req_method :: string
  req_url :: string
  req_auth :: "string option \<times> string option"  \<comment> \<open>\<open>HTTPBasicAuth(username, password)\<close>\<close>
  req_headers :: "(string \<times> string) list"
  req_verify :: bool
  req_timeout :: int
  req_params :: "(string \<times> string) list option"
  req_json :: "json option"

datatype reply = Raises exn | Responds response

text \<open>
  The transport \<open>requests.request\<close> is a parameter: from the requests attempted so far
  and the new request it gives an exception or a response.
\<close>

type_synonym transport = "request list \<Rightarrow> request \<Rightarrow> reply"

record kwargs =
  kw_headers :: "(string \<times> string) list"
  kw_params :: "(string \<times> string) list option"
  kw_json :: "json option"

definition no_kwargs :: kwargs where
  "no_kwargs = \<lparr>kw_headers = [], kw_params = None, kw_json = None\<rparr>"

definition with_params :: "(string \<times> string) list \<Rightarrow> kwargs" where
  "with_params ps = \<lparr>kw_headers = [], kw_params = Some ps, kw_json = None\<rparr>"

definition with_json :: "json \<Rightarrow> kwargs" where
  "with_json j = \<lparr>kw_headers = [], kw_params = None, kw_json = Some j\<rparr>"

record world =
  settings :: settings
  api_version :: "string option"  \<comment> \<open>the module variable \<open>_api_version\<close> of jira_tools.py\<close>
  sent :: "request list"          \<comment> \<open>every call of \<open>requests.request\<close>, oldest first\<close>

definition mk_request ::
  "string \<Rightarrow> string option \<Rightarrow> string option \<Rightarrow> bool \<Rightarrow> string \<Rightarrow> string \<Rightarrow> kwargs \<Rightarrow> request" where
  \<comment> \<open>the arguments both request builders pass to \<open>requests.request\<close>\<close>
  "mk_request base username password verify method path kw =
     \<lparr>req_method = method,
      req_url = py_rstrip ''/'' base @ path,
      req_auth = (username, password),
      req_headers = setdefault ''Accept'' ''application/json''
                      (setdefault ''Content-Type'' ''application/json'' (kw_headers kw)),
      req_verify = verify,
      req_timeout = 30,
      req_params = kw_params kw,
      req_json = kw_json kw\<rparr>"

definition send_request :: "transport \<Rightarrow> request \<Rightarrow> world \<Rightarrow> (exn + response) \<times> world" where
  \<comment> \<open>the call of \<open>requests.request\<close>\<close>
  "send_request net req w =
     ((case net (sent w) req of Raises e \<Rightarrow> Inl e | Responds r \<Rightarrow> Inr r),
      w\<lparr>sent := sent w @ [req]\<rparr>)"

definition err :: "string \<Rightarrow> json" where
  \<comment> \<open>\<open>_err\<close> of both modules\<close>
  "err msg = JObj [(''success'', JBool False), (''error'', JStr msg)]"

definition resp_err :: "string \<Rightarrow> response \<Rightarrow> json" where
  \<comment> \<open>\<open>_resp_err\<close> of both modules\<close>
  "resp_err label resp =
     err (label @ '' ('' @ py_str_int (status_code resp) @ ''): '' @ resp_text resp)"

section \<open>confluence_tools.py\<close>

definition confluence_request ::
  "transport \<Rightarrow> string \<Rightarrow> string \<Rightarrow> bool option \<Rightarrow> kwargs \<Rightarrow> world \<Rightarrow> (exn + response) \<times> world" where
  \<comment> \<open>\<open>_confluence_request\<close>\<close>
  "confluence_request net method path verify_ssl kw w =
     (let s = settings w
      in if \<not> has_confluence s
         then (Inl (Exn ValueError (''Confluence is not configured. Set CONFLUENCE_URL '' @
                 ''and credentials (CONFLUENCE_USERNAME/PASSWORD or '' @
                 ''JIRA_USERNAME/PASSWORD).'')), w)
         else
           (let verify = (case verify_ssl of None \<Rightarrow> confluence_verify_ssl s | Some v \<Rightarrow> v)
            in case confluence_url s of
                 None \<Rightarrow> (Inl (Exn AttributeError ''rstrip''), w)
               | Some base \<Rightarrow>
                   send_request net (mk_request base (confluence_username s) (confluence_password s)
                                verify method path kw) w))"

definition confluence_NOT_CONFIGURED_MSG :: string where
  "confluence_NOT_CONFIGURED_MSG =
     ''Confluence is not configured. Ask the user for their '' @
     ''Confluence URL, username, and password, then call '' @
     ''confluence_configure(url, username, password) before '' @
     ''retrying.''"

definition confluence_handler :: "exn \<Rightarrow> exn + json" where
  \<comment> \<open>the two \<open>except\<close> clauses that close every \<open>try\<close> of the module, in their order:
      the error result they return, or the exception that neither catches\<close>
  "confluence_handler e =
     (case e of Exn k m \<Rightarrow>
        if is_ValueError k then Inr (err confluence_NOT_CONFIGURED_MSG)
        else if is_RequestException k then Inr (err (''Confluence request error: '' @ m))
        else Inl (Exn k m))"

definition confluence_except :: "exn + json \<Rightarrow> exn + json" where
  \<comment> \<open>a \<open>try\<close> block whose every path returns, under the two \<open>except\<close> clauses\<close>
  "confluence_except r = (case r of Inr v \<Rightarrow> Inr v | Inl e \<Rightarrow> confluence_handler e)"

definition confluence_configure :: "string \<Rightarrow> string \<Rightarrow> string \<Rightarrow> world \<Rightarrow> json \<times> world" where
  "confluence_configure url username password w =
     (JObj [(''success'', JBool True), (''message'', JStr (''Confluence configured for '' @ url))],
      w\<lparr>settings := (settings w)\<lparr>confluence_url := Some (py_rstrip ''/'' url),
                                  confluence_username := Some username,
                                  confluence_password := Some password\<rparr>\<rparr>)"

definition cql_ops :: "string list" where
  "cql_ops = [''='', ''~'', ''AND'', ''OR'', ''NOT'', ''IN'', ''type'', ''space'', ''label'']"

definition has_cql_op :: "string \<Rightarrow> bool" where
  \<comment> \<open>\<open>any(op in query for op in cql_ops)\<close>\<close>
  "has_cql_op query = list_ex (\<lambda>op. py_in op query) cql_ops"

definition confluence_search_cql :: "string \<Rightarrow> string option \<Rightarrow> string" where
  \<comment> \<open>the CQL string that \<open>confluence_search\<close> builds (its first lines)\<close>
  "confluence_search_cql query space_key =
     (let cql = query;
          cql = (if truthy_str space_key \<and> \<not> py_in ''space'' (py_lower query)
                 then ''space = \"'' @ py_fmt space_key @ ''\" AND ('' @ query @ '')''
                 else cql);
          cql = (if \<not> has_cql_op query
                 then (let cql = ''type = page AND text ~ \"'' @ query @ ''\"''
                       in if truthy_str space_key
                          then ''space = \"'' @ py_fmt space_key @ ''\" AND '' @ cql
                          else cql)
                 else cql)
      in cql)"


definition search_item :: "json \<Rightarrow> exn + json" where
  \<comment> \<open>the body of the loop over the results in \<open>confluence_search\<close>\<close>
  "search_item item =
     bind_r (py_get item ''metadata'' (JObj [])) (\<lambda>metadata.
     bind_r (py_get metadata ''labels'' (JObj [])) (\<lambda>lbls.
     bind_r (py_get lbls ''results'' JNull) (\<lambda>lbl_results.
     bind_r (if py_truthy lbl_results
             then bind_r (py_iter lbl_results) (map_r (\<lambda>lbl. py_get lbl ''name'' JNull))
             else Inr []) (\<lambda>labels.
     bind_r (py_get item ''space'' JNull) (\<lambda>space.
     bind_r (py_get item ''id'' JNull) (\<lambda>item_id.
     bind_r (py_get item ''title'' JNull) (\<lambda>title.
     bind_r (py_get item ''type'' JNull) (\<lambda>item_type.
     bind_r (if py_truthy space then py_get space ''key'' JNull else Inr JNull) (\<lambda>space_key.
     bind_r (py_get item ''_links'' (JObj [])) (\<lambda>links.
     bind_r (py_get links ''webui'' JNull) (\<lambda>url.
     Inr (JObj [(''id'', item_id), (''title'', title), (''type'', item_type),
                (''space_key'', space_key), (''labels'', JArr labels),
                (''url'', url)]))))))))))))"

definition confluence_search ::
  "transport \<Rightarrow> string \<Rightarrow> int \<Rightarrow> string option \<Rightarrow> bool option \<Rightarrow> world \<Rightarrow> (exn + json) \<times> world" where
  "confluence_search net query max_results space_key verify_ssl w =
     (let params = [(''cql'', confluence_search_cql query space_key),
                    (''limit'', py_str_int max_results),
                    (''expand'', ''metadata.labels'')];
          (r, w1) = confluence_request net ''GET'' ''/rest/api/content/search'' verify_ssl
                      (with_params params) w
      in (confluence_except (bind_r r (\<lambda>resp.
            if \<not> resp_ok resp then Inr (resp_err ''Confluence search failed'' resp)
            else bind_r (resp_json resp) (\<lambda>data.
                 bind_r (py_get data ''results'' (JArr [])) (\<lambda>rs.
                 bind_r (py_iter rs) (\<lambda>items.
                 bind_r (map_r search_item items) (\<lambda>results.
                 bind_r (py_get data ''totalSize'' (JInt 0)) (\<lambda>total.
                 Inr (JObj [(''success'', JBool True), (''total'', total),
                            (''results'', JArr results)])))))))), w1))"

definition page_result :: "json \<Rightarrow> exn + json" where
  \<comment> \<open>the end of \<open>confluence_get_page\<close>: the page flattened into the result\<close>
  "page_result data =
     bind_r (py_get data ''body'' (JObj [])) (\<lambda>body.
     bind_r (py_get body ''storage'' (JObj [])) (\<lambda>storage.
     bind_r (py_get storage ''value'' (JStr [])) (\<lambda>body_storage.
     bind_r (case body_storage of JStr html \<Rightarrow> Inr (strip_html_tags html)
             | _ \<Rightarrow> Inl (Exn TypeError ''expected string'')) (\<lambda>body_text.
     bind_r (py_get data ''space'' JNull) (\<lambda>space.
     bind_r (py_get data ''id'' JNull) (\<lambda>page_id.
     bind_r (py_get data ''title'' JNull) (\<lambda>title.
     bind_r (if py_truthy space then py_get space ''key'' JNull else Inr JNull) (\<lambda>space_key.
     bind_r (py_get data ''version'' (JObj [])) (\<lambda>version.
     bind_r (py_get version ''number'' JNull) (\<lambda>number.
     bind_r (py_get data ''_links'' (JObj [])) (\<lambda>links.
     bind_r (py_get links ''webui'' JNull) (\<lambda>url.
     Inr (JObj [(''success'', JBool True), (''id'', page_id), (''title'', title),
                (''space_key'', space_key), (''version'', number),
                (''body_html'', body_storage), (''body_text'', JStr body_text),
                (''url'', url)])))))))))))))"

definition confluence_get_page ::
  "transport \<Rightarrow> string option \<Rightarrow> string option \<Rightarrow> string option \<Rightarrow> bool option \<Rightarrow> world
   \<Rightarrow> (exn + json) \<times> world" where
  "confluence_get_page net page_id title space_key verify_ssl w =
     (let expand = ''body.storage,version,space''
      in if truthy_str page_id
         then
           (let (r, w1) = confluence_request net ''GET'' (''/rest/api/content/'' @ py_fmt page_id)
                            verify_ssl (with_params [(''expand'', expand)]) w
            in (confluence_except (bind_r r (\<lambda>resp.
                  if \<not> resp_ok resp then Inr (resp_err ''Failed to get page'' resp)
                  else bind_r (resp_json resp) page_result)), w1))
         else if truthy_str title \<and> truthy_str space_key
         then
           (let (r, w1) = confluence_request net ''GET'' ''/rest/api/content'' verify_ssl
                            (with_params [(''title'', py_fmt title),
                                          (''spaceKey'', py_fmt space_key),
                                          (''expand'', expand), (''limit'', ''1'')]) w
            in (confluence_except (bind_r r (\<lambda>resp.
                  if \<not> resp_ok resp then Inr (resp_err ''Failed to get page'' resp)
                  else bind_r (resp_json resp) (\<lambda>data.
                       bind_r (py_get data ''results'' (JArr [])) (\<lambda>results.
                       if \<not> py_truthy results
                       then Inr (err (''No page found with title '' @ [CHR 0x27] @ py_fmt title @
                                      [CHR 0x27] @ '' in space '' @ [CHR 0x27] @
                                      py_fmt space_key @ [CHR 0x27] @ ''.''))
                       else bind_r (py_index0 results) page_result)))), w1))
         else (Inr (err ''Provide either page_id or both title and space_key.''), w))"

definition confluence_create_page ::
  "transport \<Rightarrow> string \<Rightarrow> string \<Rightarrow> string \<Rightarrow> string option \<Rightarrow> bool option \<Rightarrow> world
   \<Rightarrow> (exn + json) \<times> world" where
  "confluence_create_page net space_key title body parent_id verify_ssl w =
     (let payload = [(''type'', JStr ''page''), (''title'', JStr title),
                     (''space'', JObj [(''key'', JStr space_key)]),
                     (''body'', JObj [(''storage'', JObj [(''value'', JStr body),
                                        (''representation'', JStr ''storage'')])])];
          payload = (if truthy_str parent_id
                     then dict_set ''ancestors'' (JArr [JObj [(''id'', JStr (py_fmt parent_id))]]) payload
                     else payload);
          (r, w1) = confluence_request net ''POST'' ''/rest/api/content'' verify_ssl
                      (with_json (JObj payload)) w
      in (confluence_except (bind_r r (\<lambda>resp.
            if \<not> resp_ok resp then Inr (resp_err ''Failed to create page'' resp)
            else bind_r (resp_json resp) (\<lambda>data.
                 bind_r (py_get data ''id'' JNull) (\<lambda>page_id.
                 bind_r (py_get data ''title'' JNull) (\<lambda>page_title.
                 bind_r (py_get data ''_links'' (JObj [])) (\<lambda>links.
                 bind_r (py_get links ''webui'' JNull) (\<lambda>url.
                 Inr (JObj [(''success'', JBool True), (''id'', page_id),
                            (''title'', page_title), (''url'', url)])))))))), w1))"

definition fetch_version :: "exn + response \<Rightarrow> exn + (json + json)" where
  \<comment> \<open>the first \<open>try\<close> of \<open>confluence_update_page\<close> behind its request: \<open>Inl\<close> is the
      error result it returns, \<open>Inr\<close> the current version it goes on with\<close>
  "fetch_version r =
     (case bind_r r (\<lambda>get_resp.
             if \<not> resp_ok get_resp
             then Inr (Inl (resp_err ''Failed to get page version'' get_resp))
             else bind_r (resp_json get_resp) (\<lambda>data.
                  bind_r (py_get data ''version'' (JObj [])) (\<lambda>version.
                  bind_r (py_get version ''number'' (JInt 0)) (\<lambda>number.
                  Inr (Inr number))))) of
        Inr x \<Rightarrow> Inr x
      | Inl e \<Rightarrow> (case confluence_handler e of Inl e' \<Rightarrow> Inl e' | Inr res \<Rightarrow> Inr (Inl res)))"

definition confluence_update_page ::
  "transport \<Rightarrow> string \<Rightarrow> string \<Rightarrow> string \<Rightarrow> string option \<Rightarrow> bool option \<Rightarrow> world
   \<Rightarrow> (exn + json) \<times> world" where
  "confluence_update_page net page_id title body version_comment verify_ssl w =
     (let (r1, w1) = confluence_request net ''GET'' (''/rest/api/content/'' @ page_id) verify_ssl
                       (with_params [(''expand'', ''version'')]) w
      in case fetch_version r1 of
           Inl e \<Rightarrow> (Inl e, w1)
         | Inr (Inl res) \<Rightarrow> (Inr res, w1)
         | Inr (Inr current_version) \<Rightarrow>
             (case py_add1 current_version of
                Inl e \<Rightarrow> (Inl e, w1)
              | Inr next_version \<Rightarrow>
                  (let version_payload = [(''number'', next_version)];
                       version_payload =
                         (if truthy_str version_comment
                          then dict_set ''message'' (JStr (py_fmt version_comment)) version_payload
                          else version_payload);
                       payload = [(''type'', JStr ''page''), (''title'', JStr title),
                                  (''body'', JObj [(''storage'', JObj [(''value'', JStr body),
                                                     (''representation'', JStr ''storage'')])]),
                                  (''version'', JObj version_payload)];
                       (r2, w2) = confluence_request net ''PUT'' (''/rest/api/content/'' @ page_id)
                                    verify_ssl (with_json (JObj payload)) w1
                   in (confluence_except (bind_r r2 (\<lambda>resp.
                         if \<not> resp_ok resp then Inr (resp_err ''Failed to update page'' resp)
                         else bind_r (resp_json resp) (\<lambda>data.
                              bind_r (py_get data ''id'' JNull) (\<lambda>page_id'.
                              bind_r (py_get data ''title'' JNull) (\<lambda>page_title.
                              bind_r (py_get data ''version'' (JObj [])) (\<lambda>version.
                              bind_r (py_get version ''number'' JNull) (\<lambda>number.
                              bind_r (py_get data ''_links'' (JObj [])) (\<lambda>links.
                              bind_r (py_get links ''webui'' JNull) (\<lambda>url.
                              Inr (JObj [(''success'', JBool True), (''id'', page_id'),
                                         (''title'', page_title), (''version'', number),
                                         (''url'', url)])))))))))), w2))))"


section \<open>jira_tools.py\<close>

definition jira_request ::
  "transport \<Rightarrow> string \<Rightarrow> string \<Rightarrow> bool option \<Rightarrow> kwargs \<Rightarrow> world \<Rightarrow> (exn + response) \<times> world" where
  \<comment> \<open>\<open>_jira_request\<close>\<close>
  "jira_request net method path verify_ssl kw w =
     (let s = settings w
      in if \<not> has_jira s
         then (Inl (Exn ValueError (''JIRA is not configured. '' @
                 ''Set JIRA_URL, JIRA_USERNAME, and JIRA_PASSWORD.'')), w)
         else
           (let verify = (case verify_ssl of None \<Rightarrow> jira_verify_ssl s | Some v \<Rightarrow> v)
            in case jira_url s of
                 None \<Rightarrow> (Inl (Exn AttributeError ''rstrip''), w)
               | Some base \<Rightarrow>
                   send_request net (mk_request base (jira_username s) (jira_password s)
                                verify method path kw) w))"

definition detect_api_version ::
  "transport \<Rightarrow> bool option \<Rightarrow> world \<Rightarrow> (exn + string) \<times> world" where
  \<comment> \<open>\<open>_detect_api_version\<close>; \<open>except Exception\<close> catches every exception of the model\<close>
  "detect_api_version net verify_ssl w =
     (case api_version w of
        Some v \<Rightarrow> (Inr v, w)
      | None \<Rightarrow>
          (let (r, w1) = jira_request net ''GET'' ''/rest/api/2/serverInfo'' verify_ssl no_kwargs w;
               tried = bind_r r (\<lambda>resp.
                         if resp_ok resp
                         then bind_r (resp_json resp) (\<lambda>data.
                              bind_r (py_get data ''versionNumbers'' (JArr [])) (\<lambda>ver. Inr ()))
                         else Inr ());
               caught = (case tried of Inl e \<Rightarrow> Inr () | Inr u \<Rightarrow> Inr u)
           in case caught of
                Inl e \<Rightarrow> (Inl e, w1)
              | Inr u \<Rightarrow> (Inr ''2'', w1\<lparr>api_version := Some ''2''\<rparr>)))"

definition with_probe ::
  "transport \<Rightarrow> bool option \<Rightarrow> world \<Rightarrow> (world \<Rightarrow> (exn + json) \<times> world) \<Rightarrow> (exn + json) \<times> world" where
  \<comment> \<open>the first statement of every tool, \<open>_detect_api_version(verify_ssl=verify_ssl)\<close>,
      and the rest of the tool behind it\<close>
  "with_probe net verify_ssl w rest =
     (case detect_api_version net verify_ssl w of
        (Inl e, w1) \<Rightarrow> (Inl e, w1)
      | (Inr v, w1) \<Rightarrow> rest w1)"

definition get_nested :: "json \<Rightarrow> string \<Rightarrow> string \<Rightarrow> exn + json" where
  \<comment> \<open>\<open>_get_nested\<close>\<close>
  "get_nested d key nested_key =
     bind_r (py_get d key JNull) (\<lambda>val.
     if py_truthy val then py_get val nested_key JNull else Inr JNull)"

definition jira_NOT_CONFIGURED_MSG :: string where
  "jira_NOT_CONFIGURED_MSG =
     ''JIRA is not configured. Ask the user for their JIRA URL, '' @
     ''username, and password, then call jira_configure(url, '' @
     ''username, password) before retrying.''"

definition jira_handler :: "exn \<Rightarrow> exn + json" where
  \<comment> \<open>the two \<open>except\<close> clauses that close every \<open>try\<close> of the module, in their order\<close>
  "jira_handler e =
     (case e of Exn k m \<Rightarrow>
        if is_ValueError k then Inr (err jira_NOT_CONFIGURED_MSG)
        else if is_RequestException k then Inr (err (''JIRA request error: '' @ m))
        else Inl (Exn k m))"

definition jira_except :: "exn + json \<Rightarrow> exn + json" where
  "jira_except r = (case r of Inr v \<Rightarrow> Inr v | Inl e \<Rightarrow> jira_handler e)"

definition jira_configure :: "string \<Rightarrow> string \<Rightarrow> string \<Rightarrow> world \<Rightarrow> json \<times> world" where
  "jira_configure url username password w =
     (JObj [(''success'', JBool True), (''message'', JStr (''JIRA configured for '' @ url))],
      w\<lparr>settings := (settings w)\<lparr>jira_url := Some (py_rstrip ''/'' url),
                                  jira_username := Some username,
                                  jira_password := Some password\<rparr>,
        api_version := None\<rparr>)"

definition search_issue :: "json \<Rightarrow> exn + json" where
  \<comment> \<open>the body of the loop over the issues in \<open>jira_search\<close>\<close>
  "search_issue issue =
     bind_r (py_get issue ''fields'' (JObj [])) (\<lambda>f.
     bind_r (get_nested f ''assignee'' ''displayName'') (\<lambda>assignee.
     bind_r (py_get issue ''key'' JNull) (\<lambda>issue_key.
     bind_r (py_get f ''summary'' JNull) (\<lambda>summary.
     bind_r (get_nested f ''status'' ''name'') (\<lambda>status.
     bind_r (get_nested f ''priority'' ''name'') (\<lambda>priority.
     bind_r (py_get f ''created'' JNull) (\<lambda>created.
     bind_r (py_get f ''updated'' JNull) (\<lambda>updated.
     Inr (JObj [(''key'', issue_key), (''summary'', summary), (''status'', status),
                (''assignee'', assignee), (''priority'', priority),
                (''created'', created), (''updated'', updated)])))))))))"

definition jira_search ::
  "transport \<Rightarrow> string \<Rightarrow> int \<Rightarrow> string list option \<Rightarrow> bool option \<Rightarrow> world
   \<Rightarrow> (exn + json) \<times> world" where
  "jira_search net jql max_results flds verify_ssl w =
     with_probe net verify_ssl w (\<lambda>w1.
       let flds = (case flds of
                       None \<Rightarrow> [''key'', ''summary'', ''status'', ''assignee'',
                                 ''priority'', ''created'', ''updated'']
                     | Some fs \<Rightarrow> fs);
           payload = JObj [(''jql'', JStr jql), (''maxResults'', JInt max_results),
                           (''fields'', JArr (map JStr flds))];
           (r, w2) = jira_request net ''POST'' ''/rest/api/2/search'' verify_ssl
                       (with_json payload) w1
       in (jira_except (bind_r r (\<lambda>resp.
             if \<not> resp_ok resp then Inr (resp_err ''JIRA search failed'' resp)
             else bind_r (resp_json resp) (\<lambda>data.
                  bind_r (py_get data ''issues'' (JArr [])) (\<lambda>is.
                  bind_r (py_iter is) (\<lambda>items.
                  bind_r (map_r search_issue items) (\<lambda>issues.
                  bind_r (py_get data ''total'' (JInt 0)) (\<lambda>total.
                  Inr (JObj [(''success'', JBool True), (''total'', total),
                             (''issues'', JArr issues)])))))))), w2))"

definition issue_comment :: "json \<Rightarrow> exn + json" where
  \<comment> \<open>one element of the comprehension over the comments in \<open>jira_get_issue\<close>\<close>
  "issue_comment c =
     bind_r (py_get c ''author'' (JObj [])) (\<lambda>author.
     bind_r (py_get author ''displayName'' JNull) (\<lambda>name.
     bind_r (py_get c ''body'' JNull) (\<lambda>body.
     bind_r (py_get c ''created'' JNull) (\<lambda>created.
     Inr (JObj [(''author'', name), (''body'', body), (''created'', created)])))))"

definition issue_result :: "json \<Rightarrow> exn + json" where
  \<comment> \<open>the end of \<open>jira_get_issue\<close>: the issue flattened into the result\<close>
  "issue_result data =
     bind_r (py_get data ''fields'' (JObj [])) (\<lambda>f.
     bind_r (py_get f ''comment'' (JObj [])) (\<lambda>comment_data.
     bind_r (py_get comment_data ''comments'' (JArr [])) (\<lambda>cs.
     bind_r (py_iter cs) (\<lambda>items.
     bind_r (map_r issue_comment items) (\<lambda>comments.
     bind_r (py_get data ''key'' JNull) (\<lambda>issue_key.
     bind_r (py_get f ''summary'' JNull) (\<lambda>summary.
     bind_r (py_get f ''description'' JNull) (\<lambda>description.
     bind_r (get_nested f ''status'' ''name'') (\<lambda>status.
     bind_r (get_nested f ''assignee'' ''displayName'') (\<lambda>assignee.
     bind_r (get_nested f ''reporter'' ''displayName'') (\<lambda>reporter.
     bind_r (get_nested f ''priority'' ''name'') (\<lambda>priority.
     bind_r (get_nested f ''issuetype'' ''name'') (\<lambda>issue_type.
     bind_r (py_get f ''labels'' (JArr [])) (\<lambda>labels.
     bind_r (py_get f ''created'' JNull) (\<lambda>created.
     bind_r (py_get f ''updated'' JNull) (\<lambda>updated.
     Inr (JObj [(''success'', JBool True), (''key'', issue_key), (''summary'', summary),
                (''description'', description), (''status'', status),
                (''assignee'', assignee), (''reporter'', reporter),
                (''priority'', priority), (''issue_type'', issue_type),
                (''labels'', labels), (''created'', created), (''updated'', updated),
                (''comments'', JArr comments)])))))))))))))))))"

definition jira_get_issue ::
  "transport \<Rightarrow> string \<Rightarrow> string option \<Rightarrow> bool option \<Rightarrow> world \<Rightarrow> (exn + json) \<times> world" where
  "jira_get_issue net issue_key expand verify_ssl w =
     with_probe net verify_ssl w (\<lambda>w1.
       let params = (if truthy_str expand then [(''expand'', py_fmt expand)] else []);
           (r, w2) = jira_request net ''GET'' (''/rest/api/2/issue/'' @ issue_key) verify_ssl
                       (with_params params) w1
       in (jira_except (bind_r r (\<lambda>resp.
             if \<not> resp_ok resp then Inr (resp_err ''Failed to get issue'' resp)
             else bind_r (resp_json resp) issue_result)), w2))"

definition name_obj :: "string \<Rightarrow> json" where
  "name_obj n = JObj [(''name'', JStr n)]"

definition jira_create_issue ::
  "transport \<Rightarrow> string \<Rightarrow> string \<Rightarrow> string \<Rightarrow> string option \<Rightarrow> string option \<Rightarrow> string option
   \<Rightarrow> string list option \<Rightarrow> (string \<times> json) list option \<Rightarrow> bool option \<Rightarrow> world
   \<Rightarrow> (exn + json) \<times> world" where
  "jira_create_issue net project_key summary issue_type description priority assignee labels
       custom_fields verify_ssl w =
     with_probe net verify_ssl w (\<lambda>w1.
       let flds = [(''project'', JObj [(''key'', JStr project_key)]),
                     (''summary'', JStr summary),
                     (''issuetype'', name_obj issue_type)];
           flds = set_opt ''description'' (map_option JStr description) flds;
           flds = set_opt ''priority'' (map_option name_obj priority) flds;
           flds = set_opt ''assignee'' (map_option name_obj assignee) flds;
           flds = set_opt ''labels'' (map_option (\<lambda>ls. JArr (map JStr ls)) labels) flds;
           flds = (case custom_fields of None \<Rightarrow> flds
                     | Some cf \<Rightarrow> if cf \<noteq> [] then dict_update flds cf else flds);
           (r, w2) = jira_request net ''POST'' ''/rest/api/2/issue'' verify_ssl
                       (with_json (JObj [(''fields'', JObj flds)])) w1
       in (jira_except (bind_r r (\<lambda>resp.
             if \<not> resp_ok resp then Inr (resp_err ''Failed to create issue'' resp)
             else bind_r (resp_json resp) (\<lambda>data.
                  bind_r (py_get data ''key'' JNull) (\<lambda>issue_key.
                  bind_r (py_get data ''id'' JNull) (\<lambda>issue_id.
                  bind_r (py_get data ''self'' JNull) (\<lambda>self.
                  Inr (JObj [(''success'', JBool True), (''key'', issue_key),
                             (''id'', issue_id), (''self'', self)]))))))), w2))"

definition jira_update_issue ::
  "transport \<Rightarrow> string \<Rightarrow> string option \<Rightarrow> string option \<Rightarrow> string option
   \<Rightarrow> string list option \<Rightarrow> string option \<Rightarrow> (string \<times> json) list option \<Rightarrow> bool option
   \<Rightarrow> world \<Rightarrow> (exn + json) \<times> world" where
  "jira_update_issue net issue_key summary description assignee labels priority custom_fields
       verify_ssl w =
     with_probe net verify_ssl w (\<lambda>w1.
       let flds = [];
           flds = set_opt ''summary'' (map_option JStr summary) flds;
           flds = set_opt ''description'' (map_option JStr description) flds;
           flds = set_opt ''assignee'' (map_option name_obj assignee) flds;
           flds = set_opt ''labels'' (map_option (\<lambda>ls. JArr (map JStr ls)) labels) flds;
           flds = set_opt ''priority'' (map_option name_obj priority) flds;
           flds = (case custom_fields of None \<Rightarrow> flds
                     | Some cf \<Rightarrow> if cf \<noteq> [] then dict_update flds cf else flds)
       in if flds = [] then (Inr (err ''No fields to update.''), w1)
          else
            (let (r, w2) = jira_request net ''PUT'' (''/rest/api/2/issue/'' @ issue_key) verify_ssl
                             (with_json (JObj [(''fields'', JObj flds)])) w1
             in (jira_except (bind_r r (\<lambda>resp.
                   if \<not> resp_ok resp then Inr (resp_err ''Failed to update issue'' resp)
                   else Inr (JObj [(''success'', JBool True), (''key'', JStr issue_key)]))),
                 w2)))"

definition jira_add_comment ::
  "transport \<Rightarrow> string \<Rightarrow> string \<Rightarrow> bool option \<Rightarrow> world \<Rightarrow> (exn + json) \<times> world" where
  "jira_add_comment net issue_key body verify_ssl w =
     with_probe net verify_ssl w (\<lambda>w1.
       let (r, w2) = jira_request net ''POST'' (''/rest/api/2/issue/'' @ issue_key @ ''/comment'')
                       verify_ssl (with_json (JObj [(''body'', JStr body)])) w1
       in (jira_except (bind_r r (\<lambda>resp.
             if \<not> resp_ok resp then Inr (resp_err ''Failed to add comment'' resp)
             else bind_r (resp_json resp) (\<lambda>data.
                  bind_r (py_get data ''id'' JNull) (\<lambda>comment_id.
                  bind_r (py_get data ''author'' (JObj [])) (\<lambda>author.
                  bind_r (py_get author ''displayName'' JNull) (\<lambda>name.
                  bind_r (py_get data ''body'' JNull) (\<lambda>comment_body.
                  bind_r (py_get data ''created'' JNull) (\<lambda>created.
                  Inr (JObj [(''success'', JBool True), (''id'', comment_id),
                             (''author'', name), (''body'', comment_body),
                             (''created'', created)]))))))))), w2))"

fun find_transition :: "string \<Rightarrow> json list \<Rightarrow> exn + json option" where
  \<comment> \<open>the loop of \<open>jira_transition_issue\<close>: the first transition whose lowered name is the
      target, \<open>None\<close> when the loop ends without a \<open>break\<close>\<close>
  "find_transition target [] = Inr None"
| "find_transition target (t # ts) =
     bind_r (py_get t ''name'' (JStr [])) (\<lambda>name.
     bind_r (py_lower_val name) (\<lambda>lowered.
     if lowered = target then Inr (Some t) else find_transition target ts))"

definition not_found_msg :: "string \<Rightarrow> json list \<Rightarrow> string" where
  "not_found_msg transition_name available =
     ''Transition '' @ [CHR 0x27] @ transition_name @ [CHR 0x27] @ '' not found. '' @
     ''Available: '' @ py_repr (JArr available)"

definition choose_transition :: "string \<Rightarrow> exn + response \<Rightarrow> exn + (json + json \<times> json)" where
  \<comment> \<open>\<open>jira_transition_issue\<close> between its two requests: \<open>Inl\<close> is the error result it
      returns, \<open>Inr\<close> the matched transition with its id\<close>
  "choose_transition transition_name r =
     bind_r r (\<lambda>resp.
       if \<not> resp_ok resp then Inr (Inl (resp_err ''Failed to get transitions'' resp))
       else bind_r (resp_json resp) (\<lambda>data.
            bind_r (py_get data ''transitions'' (JArr [])) (\<lambda>transitions.
            bind_r (py_iter transitions) (\<lambda>ts.
            bind_r (find_transition (py_lower transition_name) ts) (\<lambda>matched.
            if \<not> (case matched of None \<Rightarrow> False | Some t \<Rightarrow> py_truthy t)
            then bind_r (map_r (\<lambda>t. py_get t ''name'' JNull) ts) (\<lambda>available.
                 Inr (Inl (err (not_found_msg transition_name available))))
            else (case matched of
                    None \<Rightarrow> Inl (Exn TypeError ''subscript'')
                  | Some t \<Rightarrow> bind_r (py_getitem t ''id'') (\<lambda>tid. Inr (Inr (t, tid)))))))))"

definition jira_transition_issue ::
  "transport \<Rightarrow> string \<Rightarrow> string \<Rightarrow> bool option \<Rightarrow> world \<Rightarrow> (exn + json) \<times> world" where
  "jira_transition_issue net issue_key transition_name verify_ssl w =
     with_probe net verify_ssl w (\<lambda>w1.
       let path = ''/rest/api/2/issue/'' @ issue_key @ ''/transitions'';
           (r1, w2) = jira_request net ''GET'' path verify_ssl no_kwargs w1
       in case choose_transition transition_name r1 of
            Inl e \<Rightarrow> (jira_handler e, w2)
          | Inr (Inl res) \<Rightarrow> (Inr res, w2)
          | Inr (Inr (matched, tid)) \<Rightarrow>
              (let (r2, w3) = jira_request net ''POST'' path verify_ssl
                                (with_json (JObj [(''transition'', JObj [(''id'', tid)])])) w2
               in (jira_except (bind_r r2 (\<lambda>resp.
                     if \<not> resp_ok resp then Inr (resp_err ''Failed to transition'' resp)
                     else bind_r (py_get matched ''name'' JNull) (\<lambda>name.
                          bind_r (py_get matched ''to'' (JObj [])) (\<lambda>to.
                          bind_r (py_get to ''name'' JNull) (\<lambda>to_status.
                          Inr (JObj [(''success'', JBool True), (''key'', JStr issue_key),
                                     (''transition'', name),
                                     (''to_status'', to_status)])))))), w3)))"


section \<open>Notions used in the statements\<close>

definition confluence_req :: "settings \<Rightarrow> string \<Rightarrow> string \<Rightarrow> bool option \<Rightarrow> kwargs \<Rightarrow> request" where
  \<comment> \<open>the request that \<open>_confluence_request\<close> hands to the transport\<close>
  "confluence_req s method path verify_ssl kw =
     mk_request (case confluence_url s of None \<Rightarrow> [] | Some base \<Rightarrow> base)
       (confluence_username s) (confluence_password s)
       (case verify_ssl of None \<Rightarrow> confluence_verify_ssl s | Some v \<Rightarrow> v) method path kw"

definition jira_req :: "settings \<Rightarrow> string \<Rightarrow> string \<Rightarrow> bool option \<Rightarrow> kwargs \<Rightarrow> request" where
  \<comment> \<open>the request that \<open>_jira_request\<close> hands to the transport\<close>
  "jira_req s method path verify_ssl kw =
     mk_request (case jira_url s of None \<Rightarrow> [] | Some base \<Rightarrow> base)
       (jira_username s) (jira_password s)
       (case verify_ssl of None \<Rightarrow> jira_verify_ssl s | Some v \<Rightarrow> v) method path kw"

definition probe_requests :: "settings \<Rightarrow> string option \<Rightarrow> bool option \<Rightarrow> request list" where
  \<comment> \<open>what the version probe sends: one request when JIRA is configured and the cache is
      unset, none otherwise\<close>
  "probe_requests s cache verify_ssl =
     (if has_jira s \<and> cache = None
      then [jira_req s ''GET'' ''/rest/api/2/serverInfo'' verify_ssl no_kwargs] else [])"


fun transition_name :: "json \<Rightarrow> string" where
  \<comment> \<open>the name the matching loop reads from a transition (empty when absent)\<close>
  "transition_name (JObj kvs) = (case map_of kvs ''name'' of Some (JStr n) \<Rightarrow> n | _ \<Rightarrow> [])"
| "transition_name _ = []"






definition no_update_fields ::
  "string option \<Rightarrow> string option \<Rightarrow> string option \<Rightarrow> string list option \<Rightarrow> string option
   \<Rightarrow> (string \<times> json) list option \<Rightarrow> bool" where
  \<comment> \<open>the arguments with which \<open>jira_update_issue\<close> has nothing to send: every optional
      field absent, the custom fields absent or empty\<close>
  "no_update_fields summary description assignee labels priority custom_fields =
     (summary = None \<and> description = None \<and> assignee = None \<and> labels = None \<and>
      priority = None \<and> (custom_fields = None \<or> custom_fields = Some []))"

definition unset_settings :: settings where
  \<comment> \<open>nothing configured; certificate verification on, the default of the spec\<close>
  "unset_settings =
     \<lparr>confluence_url = None, confluence_username = None, confluence_password = None,
      confluence_verify_ssl = True,
      jira_url = None, jira_username = None, jira_password = None, jira_verify_ssl = True\<rparr>"

definition fresh_world :: world where
  "fresh_world = \<lparr>settings = unset_settings, api_version = None, sent = []\<rparr>"

definition always :: "reply \<Rightarrow> transport" where
  \<comment> \<open>a transport that answers every request alike\<close>
  "always rep log req = rep"


definition wiki_world :: world where
  \<comment> \<open>Confluence configured in a fresh process\<close>
  "wiki_world = snd (confluence_configure ''https://wiki.example.com/'' ''alice'' ''secret'' fresh_world)"

definition tracker_world :: world where
  \<comment> \<open>JIRA configured in a fresh process\<close>
  "tracker_world = snd (jira_configure ''https://jira.example.com/'' ''bob'' ''hunter2'' fresh_world)"



definition both_world :: world where
  \<comment> \<open>both services configured in a fresh process\<close>
  "both_world = snd (jira_configure ''https://jira.example.com/'' ''bob'' ''hunter2'' wiki_world)"

definition first_then :: "reply \<Rightarrow> reply \<Rightarrow> transport" where
  \<comment> \<open>a transport that answers the first request of the process with one reply and every
      later request with another\<close>
  "first_then r1 r2 log req = (if log = [] then r1 else r2)"

definition reply_with :: "int \<Rightarrow> json option \<Rightarrow> response" where
  "reply_with code body = \<lparr>status_code = code, resp_text = [], body_json = body\<rparr>"

section \<open>Substitution and stripping lemmas\<close>

lemma re_sub_no_match: "\<not> occurs m s \<Longrightarrow> re_sub m repl s = s"
  by (induction s) (auto simp: re_sub.simps)

lemma occurs_weaken:
  assumes "\<And>t. m t \<noteq> None \<Longrightarrow> m' t \<noteq> None"
  shows "occurs m s \<Longrightarrow> occurs m' s"
  using assms by (induction s) (auto simp: re_sub.simps)

lemma occurs_suffix: "occurs m b \<Longrightarrow> occurs m (a @ b)"
  by (induction a) auto

lemma occurs_prefix:
  assumes "\<And>t. m t \<noteq> None \<Longrightarrow> m (t @ b) \<noteq> None"
  shows "occurs m a \<Longrightarrow> occurs m (a @ b)"
proof (induction a)
  case Nil
  then show ?case by simp
next
  case (Cons x a)
  from Cons.prems have "m (x # a) \<noteq> None \<or> occurs m a" by simp
  then show ?case
  proof
    assume "m (x # a) \<noteq> None"
    then have "m ((x # a) @ b) \<noteq> None" by (rule assms)
    then show ?thesis by simp
  next
    assume "occurs m a"
    then have "occurs m (a @ b)" by (rule Cons.IH)
    then show ?thesis by simp
  qed
qed

lemma rstrip_decomp: "u = rev (dropWhile P (rev u)) @ rev (takeWhile P (rev u))"
proof -
  have "rev (dropWhile P (rev u)) @ rev (takeWhile P (rev u)) =
        rev (takeWhile P (rev u) @ dropWhile P (rev u))"
    by (simp only: rev_append)
  also have "\<dots> = rev (rev u)" by (simp only: takeWhile_dropWhile_id)
  finally show ?thesis by simp
qed

lemma py_strip_decomp: "\<exists>a b. s = a @ py_strip s @ b"
proof -
  let ?u = "dropWhile py_isspace s"
  have 1: "s = takeWhile py_isspace s @ ?u" by simp
  have 2: "?u = py_strip s @ rev (takeWhile py_isspace (rev ?u))"
    unfolding py_strip_def by (rule rstrip_decomp)
  from 1 2 show ?thesis by metis
qed

lemma occurs_py_strip:
  assumes "\<And>t b. m t \<noteq> None \<Longrightarrow> m (t @ b) \<noteq> None"
  shows "occurs m (py_strip s) \<Longrightarrow> occurs m s"
proof -
  assume o: "occurs m (py_strip s)"
  obtain a b where s: "s = a @ py_strip s @ b" using py_strip_decomp by blast
  from o assms have "occurs m (py_strip s @ b)" by (rule_tac occurs_prefix) auto
  then have "occurs m (a @ py_strip s @ b)" by (rule occurs_suffix)
  with s show ?thesis by simp
qed

lemma dropWhile_prefix_id:
  "u = v @ w \<Longrightarrow> (u \<noteq> [] \<Longrightarrow> \<not> P (hd u)) \<Longrightarrow> dropWhile P v = v"
  by (cases v) auto

lemma py_strip_idem: "py_strip (py_strip s) = py_strip s"
proof -
  let ?u = "dropWhile py_isspace s"
  let ?v = "rev (dropWhile py_isspace (rev ?u))"
  have v: "py_strip s = ?v" by (simp add: py_strip_def)
  have u: "?u = ?v @ rev (takeWhile py_isspace (rev ?u))"
    by (rule rstrip_decomp)
  have dv: "dropWhile py_isspace ?v = ?v"
    using u by (rule dropWhile_prefix_id) (rule hd_dropWhile)
  have "py_strip ?v = rev (dropWhile py_isspace (rev (dropWhile py_isspace ?v)))"
    by (simp add: py_strip_def)
  also have "\<dots> = rev (dropWhile py_isspace (rev ?v))" by (simp only: dv)
  also have "\<dots> = ?v" by (simp only: rev_rev_ident dropWhile_idem)
  finally show ?thesis using v by simp
qed

declare dropWhile_eq_Nil_conv [simp del]

lemma lower_gt: "py_lower_char (CHR ''>'') = CHR ''>''"
  by (simp add: py_lower_char_def)

lemma lower_not_gt: "py_lower_char c \<noteq> CHR ''>'' \<Longrightarrow> c \<noteq> CHR ''>''"
  using lower_gt by auto

lemma until_gt_Nil: "(dropWhile (\<lambda>c. c \<noteq> CHR ''>'') cs = []) = (CHR ''>'' \<notin> set cs)"
  by (auto simp: dropWhile_eq_Nil_conv)

lemma match_tag_Nil: "match_tag [] = None"
  by (simp add: match_tag_def)

lemma match_tag_single: "match_tag [a] = None"
  by (simp add: match_tag_def)

lemma match_tag_Cons2:
  "match_tag (a # c # cs) =
     (if a = CHR ''<'' \<and> c \<noteq> CHR ''>'' \<and> CHR ''>'' \<in> set cs
      then Some (tl (dropWhile (\<lambda>c. c \<noteq> CHR ''>'') cs)) else None)"
proof (cases "dropWhile (\<lambda>c. c \<noteq> CHR ''>'') cs")
  case Nil
  then have "CHR ''>'' \<notin> set cs" using until_gt_Nil by blast
  with Nil show ?thesis by (simp add: match_tag_def del: dropWhile_eq_Nil_conv)
next
  case (Cons y zs)
  then have "dropWhile (\<lambda>c. c \<noteq> CHR ''>'') cs \<noteq> []" by simp
  then have "CHR ''>'' \<in> set cs" using until_gt_Nil by blast
  with Cons show ?thesis by (simp add: match_tag_def)
qed

lemma match_tag_iff:
  "match_tag s \<noteq> None \<longleftrightarrow>
     (\<exists>c cs. s = CHR ''<'' # c # cs \<and> c \<noteq> CHR ''>'' \<and> CHR ''>'' \<in> set cs)"
proof (cases s)
  case Nil
  then show ?thesis by (simp add: match_tag_Nil)
next
  case (Cons a t)
  show ?thesis
  proof (cases t)
    case Nil
    with Cons show ?thesis by (simp add: match_tag_single)
  next
    case (Cons c cs)
    with \<open>s = a # t\<close> show ?thesis by (simp add: match_tag_Cons2)
  qed
qed

lemma match_tag_rest:
  assumes "match_tag s = Some r"
  shows "\<exists>x c cs y. s = x # c # cs \<and> dropWhile (\<lambda>c. c \<noteq> CHR ''>'') cs = y # r"
proof -
  from assms obtain x c cs where s: "s = x # c # cs"
    by (cases s rule: list.exhaust[case_names Nil Cons], simp add: match_tag_Nil)
       (rename_tac a t, case_tac t, simp_all add: match_tag_single)
  from assms s have g: "CHR ''>'' \<in> set cs" and r: "r = tl (dropWhile (\<lambda>c. c \<noteq> CHR ''>'') cs)"
    by (simp_all add: match_tag_Cons2 split: if_splits)
  from g have "dropWhile (\<lambda>c. c \<noteq> CHR ''>'') cs \<noteq> []" using until_gt_Nil by blast
  with r obtain y where "dropWhile (\<lambda>c. c \<noteq> CHR ''>'') cs = y # r"
    by (cases "dropWhile (\<lambda>c. c \<noteq> CHR ''>'') cs") simp_all
  with s show ?thesis by blast
qed

lemma match_tag_shorter: "match_tag s = Some r \<Longrightarrow> length r < length s"
proof -
  assume a: "match_tag s = Some r"
  then obtain x c cs y where s: "s = x # c # cs"
    and d: "dropWhile (\<lambda>c. c \<noteq> CHR ''>'') cs = y # r"
    using match_tag_rest by blast
  have "length (dropWhile (\<lambda>c. c \<noteq> CHR ''>'') cs) \<le> length cs" by (rule length_dropWhile_le)
  with d s show ?thesis by simp
qed

lemma match_tag_set: "match_tag s = Some r \<Longrightarrow> set r \<subseteq> set s"
proof -
  assume a: "match_tag s = Some r"
  then obtain x c cs y where s: "s = x # c # cs"
    and d: "dropWhile (\<lambda>c. c \<noteq> CHR ''>'') cs = y # r"
    using match_tag_rest by blast
  have "set (dropWhile (\<lambda>c. c \<noteq> CHR ''>'') cs) \<subseteq> set cs" by (auto dest: set_dropWhileD)
  with d s show ?thesis by auto
qed

lemma match_br_short: "match_br [] = None" "match_br [a] = None" "match_br [a, b] = None"
  by (simp_all add: match_br_def)

lemma match_br_Cons3:
  "match_br (a # b # r # cs) =
     (if a = CHR ''<'' \<and> py_lower_char b = CHR ''b'' \<and> py_lower_char r = CHR ''r''
      then (case dropWhile py_isspace cs of
              [] \<Rightarrow> None
            | x # ys \<Rightarrow>
                if x = CHR ''/''
                then (case ys of [] \<Rightarrow> None
                      | y # zs \<Rightarrow> if y = CHR ''>'' then Some zs else None)
                else if x = CHR ''>'' then Some ys else None)
      else None)"
  by (simp add: match_br_def)

lemma list3_cases:
  obtains "s = []" | a where "s = [a]" | a b where "s = [a, b]"
  | a b c cs where "s = a # b # c # cs"
  by (metis list.exhaust)

lemma match_br_tag: "match_br s \<noteq> None \<Longrightarrow> match_tag s \<noteq> None"
proof -
  assume a: "match_br s \<noteq> None"
  then obtain x b r cs where s: "s = x # b # r # cs"
    by (cases s rule: list3_cases) (simp_all add: match_br_short)
  with a have x: "x = CHR ''<''" and b: "py_lower_char b = CHR ''b''"
    and r: "py_lower_char r = CHR ''r''"
    by (simp_all add: match_br_Cons3 split: if_splits)
  from a s x b r obtain y ys where d: "dropWhile py_isspace cs = y # ys"
    by (cases "dropWhile py_isspace cs") (simp_all add: match_br_Cons3)
  with a s x b r have "CHR ''>'' \<in> set (y # ys)"
    by (cases ys) (simp_all add: match_br_Cons3 split: if_splits)
  with d have "CHR ''>'' \<in> set (dropWhile py_isspace cs)" by simp
  then have "CHR ''>'' \<in> set cs" by (rule set_dropWhileD)
  moreover from b have "py_lower_char b \<noteq> CHR ''>''" by simp
  then have "b \<noteq> CHR ''>''" by (rule lower_not_gt)
  moreover note g = \<open>CHR ''>'' \<in> set cs\<close>
  ultimately show ?thesis using s x by (simp add: match_tag_Cons2)
qed


lemma match_block_shape:
  assumes "match_block s = Some r"
  shows "\<exists>c cs k. s = c # cs \<and> c \<noteq> CHR ''>'' \<and> r = drop k cs"
proof -
  from assms obtain c cs where s: "s = c # cs"
    by (cases s) (simp_all add: match_block_def py_lower_def)
  from assms s have "py_lower_char c \<in> set ''pdhlt''"
    by (simp add: match_block_def py_lower_def split: if_splits list.splits)
  then have "py_lower_char c \<noteq> CHR ''>''" by auto
  then have "c \<noteq> CHR ''>''" by (rule lower_not_gt)
  moreover from assms s have "r = drop 0 cs \<or> r = drop 1 cs \<or> r = drop 2 cs"
    by (auto simp: match_block_def drop_Cons' split: if_splits)
  ultimately show ?thesis using s by blast
qed


lemma match_close_tag: "match_close s \<noteq> None \<Longrightarrow> match_tag s \<noteq> None"
proof -
  assume a: "match_close s \<noteq> None"
  then obtain x y cs where s: "s = x # y # cs"
    by (cases s rule: list3_cases) (auto simp: match_close_def)
  with a have x: "x = CHR ''<''" and y: "y = CHR ''/''"
    by (simp_all add: match_close_def split: if_splits)
  from a s x y obtain r where b: "match_block cs = Some r"
    by (cases "match_block cs") (simp_all add: match_close_def)
  with a s x y have "CHR ''>'' \<in> set r"
    by (cases r) (simp_all add: match_close_def split: if_splits)
  moreover from b obtain k c cs' where c: "cs = c # cs'" "r = drop k cs'"
    using match_block_shape by blast
  ultimately have "CHR ''>'' \<in> set cs'" by (auto dest: in_set_dropD)
  with c s x y show ?thesis by (simp add: match_tag_Cons2)
qed

lemma match_open_tag: "match_open s \<noteq> None \<Longrightarrow> match_tag s \<noteq> None"
proof -
  assume a: "match_open s \<noteq> None"
  then obtain x cs where s: "s = x # cs"
    by (cases s) (simp_all add: match_open_def)
  with a have x: "x = CHR ''<''"
    by (simp_all add: match_open_def split: if_splits)
  from a s x obtain r where b: "match_block cs = Some r"
    by (cases "match_block cs") (simp_all add: match_open_def)
  with a s x have "dropWhile (\<lambda>c. c \<noteq> CHR ''>'') r \<noteq> []"
    by (cases "dropWhile (\<lambda>c. c \<noteq> CHR ''>'') r") (simp_all add: match_open_def)
  then have "CHR ''>'' \<in> set r" using until_gt_Nil by blast
  moreover from b obtain k c cs' where c: "cs = c # cs'" "c \<noteq> CHR ''>''" "r = drop k cs'"
    using match_block_shape by blast
  ultimately have "CHR ''>'' \<in> set cs'" by (auto dest: in_set_dropD)
  with c s x show ?thesis by (simp add: match_tag_Cons2)
qed

lemma re_sub_Cons_None: "m (c # cs) = None \<Longrightarrow> re_sub m repl (c # cs) = c # re_sub m repl cs"
  by simp

lemma re_sub_tag_Some:
  "match_tag (c # cs) = Some rest \<Longrightarrow> re_sub match_tag repl (c # cs) = repl @ re_sub match_tag repl rest"
  using match_tag_shorter[of "c # cs" rest] by simp

lemma re_sub_tag_set: "set (re_sub match_tag [] s) \<subseteq> set s"
proof (induction s rule: length_induct)
  case (1 s)
  show ?case
  proof (cases s)
    case Nil
    then show ?thesis by simp
  next
    case (Cons c cs)
    show ?thesis
    proof (cases "match_tag (c # cs)")
      case None
      moreover have "set (re_sub match_tag [] cs) \<subseteq> set cs" using 1 Cons by simp
      ultimately show ?thesis using Cons by (auto simp: re_sub_Cons_None simp del: re_sub.simps)
    next
      case (Some rest)
      then have "length rest < length s" using Cons match_tag_shorter by blast
      then have "set (re_sub match_tag [] rest) \<subseteq> set rest" using 1 by simp
      moreover have "set rest \<subseteq> set s" using Some Cons match_tag_set by blast
      ultimately show ?thesis using Some Cons by (simp add: re_sub_tag_Some del: re_sub.simps)
    qed
  qed
qed

lemma no_tag_after_sub: "\<not> occurs match_tag (re_sub match_tag [] s)"
proof (induction s rule: length_induct)
  case (1 s)
  show ?case
  proof (cases s)
    case Nil
    then show ?thesis by simp
  next
    case (Cons c cs)
    show ?thesis
    proof (cases "match_tag (c # cs)")
      case (Some rest)
      then have "length rest < length s" using Cons match_tag_shorter by blast
      then have "\<not> occurs match_tag (re_sub match_tag [] rest)" using 1 by simp
      then show ?thesis using Some Cons by (simp add: re_sub_tag_Some del: re_sub.simps)
    next
      case None
      have ih: "\<not> occurs match_tag (re_sub match_tag [] cs)" using 1 Cons by simp
      have "match_tag (c # re_sub match_tag [] cs) = None"
      proof (rule ccontr)
        assume "match_tag (c # re_sub match_tag [] cs) \<noteq> None"
        then obtain d ds where c: "c = CHR ''<''" and r: "re_sub match_tag [] cs = d # ds"
          and d: "d \<noteq> CHR ''>''" and g: "CHR ''>'' \<in> set ds"
          using match_tag_iff by auto
        from r obtain e es where cs: "cs = e # es" by (cases cs) auto
        show False
        proof (cases "e = CHR ''>''")
          case True
          then have "match_tag (e # es) = None" by (cases es) (simp_all add: match_tag_single match_tag_Cons2)
          with cs r d True show False by (simp add: re_sub_Cons_None del: re_sub.simps)
        next
          case False
          from g r have "CHR ''>'' \<in> set (re_sub match_tag [] cs)" by simp
          then have "CHR ''>'' \<in> set cs" using re_sub_tag_set by blast
          with cs False have "CHR ''>'' \<in> set es" by simp
          with c cs False have "match_tag (c # cs) \<noteq> None" by (simp add: match_tag_Cons2)
          with None show False by simp
        qed
      qed
      with None ih Cons show ?thesis by (simp add: re_sub_Cons_None del: re_sub.simps)
    qed
  qed
qed

declare re_sub.simps(2) [simp del]

lemma re_sub_Cons_Some:
  "m (c # cs) = Some rest \<Longrightarrow> length rest < length (c # cs) \<Longrightarrow>
   re_sub m repl (c # cs) = repl @ re_sub m repl rest"
  by (simp add: re_sub.simps(2))

lemma match_nl3_iff: "match_nl3 s \<noteq> None \<longleftrightarrow> 3 \<le> length (takeWhile (\<lambda>c. c = nl) s)"
  by (simp add: match_nl3_def)

lemma match_nl3_Some:
  assumes "match_nl3 s = Some r"
  shows "r = dropWhile (\<lambda>c. c = nl) s" "length r < length s" "3 \<le> length (takeWhile (\<lambda>c. c = nl) s)"
proof -
  from assms show 3: "3 \<le> length (takeWhile (\<lambda>c. c = nl) s)"
    by (simp add: match_nl3_def split: if_splits)
  from assms show r: "r = dropWhile (\<lambda>c. c = nl) s"
    by (simp add: match_nl3_def split: if_splits)
  have "length (takeWhile (\<lambda>c. c = nl) s) + length (dropWhile (\<lambda>c. c = nl) s) = length s"
    by (metis length_append takeWhile_dropWhile_id)
  with 3 r show "length r < length s" by simp
qed

lemma nl3_sub_Some:
  assumes "match_nl3 (c # cs) = Some r"
  shows "re_sub match_nl3 [nl, nl] (c # cs) = nl # nl # re_sub match_nl3 [nl, nl] r"
  using assms match_nl3_Some(2)[OF assms] by (simp add: re_sub_Cons_Some)

lemma match_tag_not_lt: "c \<noteq> CHR ''<'' \<Longrightarrow> match_tag (c # cs) = None"
  by (cases cs) (simp_all add: match_tag_single match_tag_Cons2)

lemma run_rest: "takeWhile P (dropWhile P s) = []"
  by (induction s) auto

lemma run_collapse:
  "length (takeWhile (\<lambda>c. c = nl) (re_sub match_nl3 [nl, nl] s)) =
   min 2 (length (takeWhile (\<lambda>c. c = nl) s))"
proof (induction s rule: length_induct)
  case (1 s)
  show ?case
  proof (cases s)
    case Nil
    then show ?thesis by simp
  next
    case (Cons c cs)
    show ?thesis
    proof (cases "match_nl3 (c # cs)")
      case (Some r)
      note m = match_nl3_Some[OF Some]
      from m(2) Cons have "length (takeWhile (\<lambda>c. c = nl) (re_sub match_nl3 [nl, nl] r)) =
          min 2 (length (takeWhile (\<lambda>c. c = nl) r))" using 1 by simp
      also have "\<dots> = 0" using m(1) by (simp add: run_rest)
      finally show ?thesis using Cons m(3) by (simp add: nl3_sub_Some[OF Some])
    next
      case None
      then have lt: "length (takeWhile (\<lambda>c. c = nl) (c # cs)) < 3"
        using match_nl3_iff[of "c # cs"] by simp
      have ih: "length (takeWhile (\<lambda>c. c = nl) (re_sub match_nl3 [nl, nl] cs)) =
          min 2 (length (takeWhile (\<lambda>c. c = nl) cs))" using 1 Cons by simp
      show ?thesis
      proof (cases "c = nl")
        case True
        with lt have "length (takeWhile (\<lambda>c. c = nl) cs) < 2" by simp
        with ih True None Cons show ?thesis by (simp add: re_sub_Cons_None)
      next
        case False
        with None Cons show ?thesis by (simp add: re_sub_Cons_None)
      qed
    qed
  qed
qed

lemma no_nl3_after_sub: "\<not> occurs match_nl3 (re_sub match_nl3 [nl, nl] s)"
proof (induction s rule: length_induct)
  case (1 s)
  show ?case
  proof (cases s)
    case Nil
    then show ?thesis by simp
  next
    case (Cons c cs)
    show ?thesis
    proof (cases "match_nl3 (c # cs)")
      case (Some r)
      note m = match_nl3_Some[OF Some]
      from m(2) Cons have ih: "\<not> occurs match_nl3 (re_sub match_nl3 [nl, nl] r)" using 1 by simp
      have "length (takeWhile (\<lambda>c. c = nl) (re_sub match_nl3 [nl, nl] r)) = 0"
        using m(1) by (simp add: run_collapse run_rest)
      then have "match_nl3 (nl # nl # re_sub match_nl3 [nl, nl] r) = None"
        "match_nl3 (nl # re_sub match_nl3 [nl, nl] r) = None"
        by (simp_all add: match_nl3_def)
      with ih show ?thesis using Cons by (simp add: nl3_sub_Some[OF Some])
    next
      case None
      then have lt: "length (takeWhile (\<lambda>c. c = nl) (c # cs)) < 3"
        using match_nl3_iff[of "c # cs"] by simp
      have ih: "\<not> occurs match_nl3 (re_sub match_nl3 [nl, nl] cs)" using 1 Cons by simp
      have "length (takeWhile (\<lambda>c. c = nl) (c # re_sub match_nl3 [nl, nl] cs)) < 3"
        using lt by (simp add: run_collapse split: if_splits)
      then have "match_nl3 (c # re_sub match_nl3 [nl, nl] cs) = None"
        using match_nl3_iff[of "c # re_sub match_nl3 [nl, nl] cs"] by simp
      with ih None Cons show ?thesis by (simp add: re_sub_Cons_None)
    qed
  qed
qed

lemma collapse_shape:
  "(re_sub match_nl3 [nl, nl] s = []) = (s = [])"
  "s \<noteq> [] \<Longrightarrow> hd (re_sub match_nl3 [nl, nl] s) = hd s"
proof -
  show "(re_sub match_nl3 [nl, nl] s = []) = (s = [])"
  proof (cases s)
    case (Cons c cs)
    then show ?thesis
      by (cases "match_nl3 (c # cs)") (simp_all add: re_sub_Cons_None nl3_sub_Some)
  qed simp
  show "s \<noteq> [] \<Longrightarrow> hd (re_sub match_nl3 [nl, nl] s) = hd s"
  proof (cases s)
    case (Cons c cs)
    show ?thesis
    proof (cases "match_nl3 (c # cs)")
      case None
      with Cons show ?thesis by (simp add: re_sub_Cons_None)
    next
      case (Some r)
      from match_nl3_Some(3)[OF Some] have "c = nl" by (cases "c = nl") simp_all
      with Some Cons show ?thesis by (simp add: nl3_sub_Some)
    qed
  qed simp
qed

lemma collapse_set: "set (re_sub match_nl3 [nl, nl] s) \<subseteq> set s"
proof (induction s rule: length_induct)
  case (1 s)
  show ?case
  proof (cases s)
    case Nil
    then show ?thesis by simp
  next
    case (Cons c cs)
    show ?thesis
    proof (cases "match_nl3 (c # cs)")
      case (Some r)
      note m = match_nl3_Some[OF Some]
      have eq: "re_sub match_nl3 [nl, nl] s = nl # nl # re_sub match_nl3 [nl, nl] r"
        using Cons nl3_sub_Some[OF Some] by simp
      from m(2) Cons have "set (re_sub match_nl3 [nl, nl] r) \<subseteq> set r" using 1 by simp
      moreover have "set r \<subseteq> set (c # cs)"
        unfolding m(1) by (rule subsetI) (rule set_dropWhileD)
      moreover from m(3) have "c = nl" by (cases "c = nl") simp_all
      ultimately show ?thesis unfolding eq using Cons by auto
    next
      case None
      have "set (re_sub match_nl3 [nl, nl] cs) \<subseteq> set cs" using 1 Cons by simp
      with None Cons show ?thesis by (auto simp: re_sub_Cons_None)
    qed
  qed
qed

lemma tag_collapse:
  "occurs match_tag (re_sub match_nl3 [nl, nl] s) \<Longrightarrow> occurs match_tag s"
proof (induction s rule: length_induct)
  case (1 s)
  show ?case
  proof (cases s)
    case Nil
    with 1 show ?thesis by simp
  next
    case (Cons c cs)
    show ?thesis
    proof (cases "match_nl3 (c # cs)")
      case (Some r)
      note m = match_nl3_Some[OF Some]
      have "match_tag (nl # nl # re_sub match_nl3 [nl, nl] r) = None"
        "match_tag (nl # re_sub match_nl3 [nl, nl] r) = None"
        by (simp_all add: match_tag_not_lt)
      with 1(2) Cons have "occurs match_tag (re_sub match_nl3 [nl, nl] r)"
        by (simp add: nl3_sub_Some[OF Some])
      with m(2) Cons have "occurs match_tag r" using 1(1) by simp
      then have "occurs match_tag (takeWhile (\<lambda>c. c = nl) (c # cs) @ dropWhile (\<lambda>c. c = nl) (c # cs))"
        unfolding m(1) by (rule occurs_suffix)
      then have "occurs match_tag (c # cs)" by (simp only: takeWhile_dropWhile_id)
      with Cons show ?thesis by simp
    next
      case None
      from 1(2) None Cons
      have "match_tag (c # re_sub match_nl3 [nl, nl] cs) \<noteq> None \<or>
            occurs match_tag (re_sub match_nl3 [nl, nl] cs)"
        by (simp add: re_sub_Cons_None)
      then show ?thesis
      proof
        assume "occurs match_tag (re_sub match_nl3 [nl, nl] cs)"
        then have "occurs match_tag cs" using 1(1) Cons by simp
        with Cons show ?thesis by simp
      next
        assume "match_tag (c # re_sub match_nl3 [nl, nl] cs) \<noteq> None"
        then obtain d ds where c: "c = CHR ''<''" and r: "re_sub match_nl3 [nl, nl] cs = d # ds"
          and d: "d \<noteq> CHR ''>''" and g: "CHR ''>'' \<in> set ds"
          using match_tag_iff by auto
        from r have ne: "cs \<noteq> []" using collapse_shape(1)[of cs] by auto
        then obtain e es where cs: "cs = e # es" by (cases cs) auto
        from ne r cs have "e = d" using collapse_shape(2)[of cs] by simp
        moreover from g r have "CHR ''>'' \<in> set cs" using collapse_set[of cs] by auto
        ultimately have "match_tag (c # cs) \<noteq> None"
          using c cs d by (simp add: match_tag_Cons2)
        with Cons show ?thesis by simp
      qed
    qed
  qed
qed

lemma match_tag_append: "match_tag t \<noteq> None \<Longrightarrow> match_tag (t @ b) \<noteq> None"
  using match_tag_iff by auto

lemma match_nl3_append: "match_nl3 t \<noteq> None \<Longrightarrow> match_nl3 (t @ b) \<noteq> None"
proof -
  assume "match_nl3 t \<noteq> None"
  then have "3 \<le> length (takeWhile (\<lambda>c. c = nl) t)" by (simp only: match_nl3_iff)
  moreover have "length (takeWhile (\<lambda>c. c = nl) t) \<le> length (takeWhile (\<lambda>c. c = nl) (t @ b))"
    by (simp add: takeWhile_append trans_le_add1 length_takeWhile_le)
  ultimately have "3 \<le> length (takeWhile (\<lambda>c. c = nl) (t @ b))" by (rule order_trans)
  then show ?thesis by (simp only: match_nl3_iff)
qed

lemma strip_html_tags_plain:
  assumes "\<not> occurs match_tag y" "\<not> occurs match_nl3 y"
  shows "strip_html_tags y = py_strip y"
proof -
  have 1: "re_sub match_br [nl] y = y"
    using assms(1) occurs_weaken[of match_br match_tag y] match_br_tag
    by (intro re_sub_no_match) blast
  have 2: "re_sub match_close [nl] y = y"
    using assms(1) occurs_weaken[of match_close match_tag y] match_close_tag
    by (intro re_sub_no_match) blast
  have 3: "re_sub match_open [] y = y"
    using assms(1) occurs_weaken[of match_open match_tag y] match_open_tag
    by (intro re_sub_no_match) blast
  have 4: "re_sub match_tag [] y = y"
    using assms(1) by (rule re_sub_no_match)
  have 5: "re_sub match_nl3 [nl, nl] y = y"
    using assms(2) by (rule re_sub_no_match)
  show ?thesis by (simp add: strip_html_tags_def 1 2 3 4 5)
qed

lemma strip_html_tags_clean:
  "\<not> occurs match_tag (strip_html_tags x)" "\<not> occurs match_nl3 (strip_html_tags x)"
proof -
  let ?t = "re_sub match_tag [] (re_sub match_open [] (re_sub match_close [nl] (re_sub match_br [nl] x)))"
  have y: "strip_html_tags x = py_strip (re_sub match_nl3 [nl, nl] ?t)"
    by (simp add: strip_html_tags_def)
  have "\<not> occurs match_tag ?t" by (rule no_tag_after_sub)
  then have "\<not> occurs match_tag (re_sub match_nl3 [nl, nl] ?t)" using tag_collapse by blast
  then show "\<not> occurs match_tag (strip_html_tags x)"
    unfolding y using occurs_py_strip[of match_tag] match_tag_append by blast
  have "\<not> occurs match_nl3 (re_sub match_nl3 [nl, nl] ?t)" by (rule no_nl3_after_sub)
  then show "\<not> occurs match_nl3 (strip_html_tags x)"
    unfolding y using occurs_py_strip[of match_nl3] match_nl3_append by blast
qed

lemma strip_html_tags_idem: "strip_html_tags (strip_html_tags x) = strip_html_tags x"
proof -
  have "strip_html_tags (strip_html_tags x) = py_strip (strip_html_tags x)"
    using strip_html_tags_clean by (rule strip_html_tags_plain)
  also have "\<dots> = strip_html_tags x"
    by (simp add: strip_html_tags_def py_strip_idem)
  finally show ?thesis .
qed

lemma strip_html_tags_hello:
  "strip_html_tags ''<p>Hello</p><p>World</p>'' = ''Hello'' @ [nl] @ ''World''"
  by code_simp

text \<open>
  Claim C9. The HTML-to-text normalizer turns \<open><p>Hello</p><p>World</p>\<close> into the two
  words with one newline between them and nothing before or after; and for every input,
  normalizing the result again changes nothing.
\<close>

theorem strip_html_tags_example_and_idempotent:
  "strip_html_tags ''<p>Hello</p><p>World</p>'' = ''Hello'' @ [nl] @ ''World'' \<and>
   strip_html_tags (strip_html_tags html) = strip_html_tags html"
  using strip_html_tags_hello strip_html_tags_idem by simp

theorem strip_html_tags_example_and_idempotent_witness:
  "strip_html_tags (strip_html_tags ''<div>a<br/>b</div><pre>c'') =
   strip_html_tags ''<div>a<br/>b</div><pre>c''"
  by (rule strip_html_tags_example_and_idempotent[THEN conjunct2])

lemma bind_r_simps [simp]:
  "bind_r (Inl e) f = Inl e"
  "bind_r (Inr v) f = f v"
  by (simp_all add: bind_r_def)

lemma send_request_simps [simp]:
  "fst (send_request net req w) = (case net (sent w) req of Raises e \<Rightarrow> Inl e | Responds r \<Rightarrow> Inr r)"
  "snd (send_request net req w) = w\<lparr>sent := sent w @ [req]\<rparr>"
  by (simp_all add: send_request_def)

lemma jira_request_unconfigured:
  "\<not> has_jira (settings w) \<Longrightarrow>
   jira_request net method path verify_ssl kw w =
     (Inl (Exn ValueError ''JIRA is not configured. Set JIRA_URL, JIRA_USERNAME, and JIRA_PASSWORD.''), w)"
  by (simp add: jira_request_def)

lemma jira_request_configured:
  "has_jira (settings w) \<Longrightarrow>
   jira_request net method path verify_ssl kw w =
     send_request net (jira_req (settings w) method path verify_ssl kw) w"
  by (auto simp: jira_request_def jira_req_def has_jira_def Let_def)

lemma confluence_request_unconfigured:
  "\<not> has_confluence (settings w) \<Longrightarrow>
   confluence_request net method path verify_ssl kw w =
     (Inl (Exn ValueError (''Confluence is not configured. Set CONFLUENCE_URL '' @
                 ''and credentials (CONFLUENCE_USERNAME/PASSWORD or '' @
                 ''JIRA_USERNAME/PASSWORD).'')), w)"
  by (simp add: confluence_request_def)

lemma confluence_request_configured:
  "has_confluence (settings w) \<Longrightarrow>
   confluence_request net method path verify_ssl kw w =
     send_request net (confluence_req (settings w) method path verify_ssl kw) w"
  by (auto simp: confluence_request_def confluence_req_def has_confluence_def Let_def)

lemma detect_cached: "api_version w = Some v \<Longrightarrow> detect_api_version net vs w = (Inr v, w)"
  by (simp add: detect_api_version_def)

lemma detect_unset:
  "api_version w = None \<Longrightarrow>
   detect_api_version net vs w =
     (Inr ''2'', w\<lparr>api_version := Some ''2'',
                   sent := sent w @ probe_requests (settings w) None vs\<rparr>)"
proof (cases "has_jira (settings w)")
  case False
  assume "api_version w = None"
  with False show ?thesis
    by (simp add: detect_api_version_def jira_request_unconfigured probe_requests_def)
next
  case True
  assume "api_version w = None"
  with True show ?thesis
    by (simp add: detect_api_version_def jira_request_configured probe_requests_def
        send_request_def split: sum.splits)
qed

text \<open>
  Claim C6. When the version cache is unset, the probe returns the fixed string "2" and
  caches it, whatever the transport does with the probe request (an exception, a failure
  status, a body that is not JSON or not an object) and also when JIRA is not configured;
  the result is a value, so no exception leaves the probe.
\<close>

theorem detect_api_version_always_2:
  "api_version w = None \<Longrightarrow>
   fst (detect_api_version net verify_ssl w) = Inr ''2'' \<and>
   api_version (snd (detect_api_version net verify_ssl w)) = Some ''2''"
  by (simp add: detect_unset)

theorem detect_api_version_always_2_witness:
  "fst (detect_api_version (always (Raises (Exn OtherException ''boom''))) None fresh_world) = Inr ''2'' \<and>
   api_version (snd (detect_api_version (always (Raises (Exn OtherException ''boom''))) None fresh_world)) = Some ''2''"
  by (rule detect_api_version_always_2) (simp add: fresh_world_def)

lemma detect_world:
  "snd (detect_api_version net vs w) =
     w\<lparr>api_version := Some (case api_version w of None \<Rightarrow> ''2'' | Some v \<Rightarrow> v),
       sent := sent w @ probe_requests (settings w) (api_version w) vs\<rparr>"
  by (cases "api_version w") (simp_all add: detect_unset detect_cached probe_requests_def)

lemma detect_never_raises: "\<exists>v. fst (detect_api_version net vs w) = Inr v"
  by (cases "api_version w") (simp_all add: detect_unset detect_cached)

lemma with_probe_eq:
  "with_probe net vs w rest = rest (snd (detect_api_version net vs w))"
proof -
  obtain v where "fst (detect_api_version net vs w) = Inr v" using detect_never_raises by blast
  then show ?thesis by (cases "detect_api_version net vs w") (simp add: with_probe_def)
qed

section \<open>Confluence search and page lookup\<close>

lemma truthy_str_simps [simp]:
  "truthy_str None = False"
  "truthy_str (Some s) = (s \<noteq> [])"
  by (simp_all add: truthy_str_def)

lemma py_fmt_Some [simp]: "py_fmt (Some s) = s"
  by (simp add: py_fmt_def)

lemma confluence_search_sends_cql:
  "has_confluence (settings w) \<Longrightarrow>
   sent (snd (confluence_search net query max_results space_key verify_ssl w)) =
     sent w @ [confluence_req (settings w) ''GET'' ''/rest/api/content/search'' verify_ssl
                 (with_params [(''cql'', confluence_search_cql query space_key),
                               (''limit'', py_str_int max_results),
                               (''expand'', ''metadata.labels'')])]"
  by (simp add: confluence_search_def confluence_request_configured send_request_def Let_def)

text \<open>
  Claim C4, as amended. For a query that contains none of the CQL operators and
  keywords, the CQL string is the free-text wrapping of the query when the space key is
  absent or empty, and the same wrapping behind the space clause when the space key is a
  non-empty string. The search for "deployment issues" without a space key is an
  instance.
\<close>

theorem confluence_search_cql_free_text:
  "\<not> has_cql_op query \<Longrightarrow>
   (space_key = None \<or> space_key = Some [] \<longrightarrow>
      confluence_search_cql query space_key =
        ''type = page AND text ~ \"'' @ query @ ''\"'') \<and>
   (\<forall>k. space_key = Some k \<and> k \<noteq> [] \<longrightarrow>
      confluence_search_cql query space_key =
        ''space = \"'' @ k @ ''\" AND type = page AND text ~ \"'' @ query @ ''\"'') \<and>
   confluence_search_cql ''deployment issues'' None =
     ''type = page AND text ~ \"deployment issues\"''"
proof -
  assume h: "\<not> has_cql_op query"
  have ex: "\<not> has_cql_op ''deployment issues''"
    by (simp add: has_cql_op_def cql_ops_def)
  have 1: "confluence_search_cql ''deployment issues'' None =
     ''type = page AND text ~ \"deployment issues\"''"
    using ex by (simp add: confluence_search_cql_def)
  from h have 2: "space_key = None \<or> space_key = Some [] \<longrightarrow>
      confluence_search_cql query space_key =
        ''type = page AND text ~ \"'' @ query @ ''\"''"
    by (auto simp: confluence_search_cql_def)
  from h have 3: "\<forall>k. space_key = Some k \<and> k \<noteq> [] \<longrightarrow>
      confluence_search_cql query space_key =
        ''space = \"'' @ k @ ''\" AND type = page AND text ~ \"'' @ query @ ''\"''"
    by (auto simp: confluence_search_cql_def)
  from 1 2 3 show ?thesis by blast
qed

theorem confluence_search_cql_free_text_witness:
  "\<not> has_cql_op ''deployment issues'' \<and>
   confluence_search_cql ''deployment issues'' (Some ''DEV'') =
     ''space = \"DEV\" AND type = page AND text ~ \"deployment issues\"''"
proof -
  have h: "\<not> has_cql_op ''deployment issues''"
    by (simp add: has_cql_op_def cql_ops_def)
  from confluence_search_cql_free_text[OF h, of "Some ''DEV''"] h show ?thesis by simp
qed

theorem confluence_search_cql_empty_space_key:
  "\<not> has_cql_op ''deployment issues'' \<and>
   confluence_search_cql ''deployment issues'' (Some '''') \<noteq>
     ''space = \"\" AND type = page AND text ~ \"deployment issues\"''"
  by (simp add: has_cql_op_def cql_ops_def confluence_search_cql_def)

lemma py_startswith_append: "py_startswith sub (sub @ b)"
  by (induction sub) simp_all

lemma py_in_here: "py_in sub (sub @ b)"
proof (cases "sub @ b")
  case Nil
  then show ?thesis by simp
next
  case (Cons c cs)
  have "py_startswith sub (sub @ b)" by (rule py_startswith_append)
  then show ?thesis unfolding Cons by simp
qed

lemma py_in_append: "py_in sub (a @ sub @ b)"
  by (induction a) (simp_all add: py_in_here)

text \<open>
  Claim C7. A page lookup with no usable page id and without both a usable title and a
  usable space key (absent, or empty) returns the validation error and leaves the world as
  it was, so no request is issued. A lookup by title and space key whose listing comes
  back successfully with an empty results array returns an error whose message contains
  the title and the space key.
\<close>

theorem confluence_get_page_validation_and_not_found:
  "(\<not> truthy_str page_id \<and> \<not> (truthy_str title \<and> truthy_str space_key) \<longrightarrow>
      confluence_get_page net page_id title space_key verify_ssl w =
        (Inr (err ''Provide either page_id or both title and space_key.''), w)) \<and>
   (\<not> truthy_str page_id \<and> t \<noteq> [] \<and> k \<noteq> [] \<and> has_confluence (settings w) \<and>
    net (sent w) (confluence_req (settings w) ''GET'' ''/rest/api/content'' verify_ssl
                    (with_params [(''title'', t), (''spaceKey'', k),
                                  (''expand'', ''body.storage,version,space''),
                                  (''limit'', ''1'')])) = Responds resp \<and>
    resp_ok resp \<and> body_json resp = Some (JObj d) \<and> map_of d ''results'' = Some (JArr []) \<longrightarrow>
      (\<exists>msg. fst (confluence_get_page net page_id (Some t) (Some k) verify_ssl w) = Inr (err msg) \<and>
             py_in t msg \<and> py_in k msg))"
proof (intro conjI impI)
  assume "\<not> truthy_str page_id \<and> \<not> (truthy_str title \<and> truthy_str space_key)"
  then show "confluence_get_page net page_id title space_key verify_ssl w =
        (Inr (err ''Provide either page_id or both title and space_key.''), w)"
    by (auto simp: confluence_get_page_def)
next
  let ?msg = "''No page found with title '' @ [CHR 0x27] @ t @ [CHR 0x27] @ '' in space '' @
      [CHR 0x27] @ k @ [CHR 0x27] @ ''.''"
  assume a: "\<not> truthy_str page_id \<and> t \<noteq> [] \<and> k \<noteq> [] \<and> has_confluence (settings w) \<and>
    net (sent w) (confluence_req (settings w) ''GET'' ''/rest/api/content'' verify_ssl
                    (with_params [(''title'', t), (''spaceKey'', k),
                                  (''expand'', ''body.storage,version,space''),
                                  (''limit'', ''1'')])) = Responds resp \<and>
    resp_ok resp \<and> body_json resp = Some (JObj d) \<and> map_of d ''results'' = Some (JArr [])"
  then have "fst (confluence_get_page net page_id (Some t) (Some k) verify_ssl w) = Inr (err ?msg)"
    by (simp add: confluence_get_page_def confluence_request_configured send_request_def
        confluence_except_def resp_json_def)
  moreover have "py_in t ?msg"
    using py_in_append[of t "''No page found with title '' @ [CHR 0x27]"
        "[CHR 0x27] @ '' in space '' @ [CHR 0x27] @ k @ [CHR 0x27] @ ''.''"] by simp
  moreover have "py_in k ?msg"
    using py_in_append[of k "''No page found with title '' @ [CHR 0x27] @ t @ [CHR 0x27] @ '' in space '' @ [CHR 0x27]"
        "[CHR 0x27] @ ''.''"] by simp
  ultimately show "\<exists>msg. fst (confluence_get_page net page_id (Some t) (Some k) verify_ssl w) = Inr (err msg) \<and>
             py_in t msg \<and> py_in k msg" by blast
qed


lemma example_worlds [simp]:
  "\<not> has_confluence (settings fresh_world)" "\<not> has_jira (settings fresh_world)"
  "api_version fresh_world = None" "sent fresh_world = []"
  "has_confluence (settings wiki_world)" "\<not> has_jira (settings wiki_world)"
  "api_version wiki_world = None" "sent wiki_world = []"
  "has_jira (settings tracker_world)" "\<not> has_confluence (settings tracker_world)"
  "api_version tracker_world = None" "sent tracker_world = []"
  by (simp_all add: fresh_world_def wiki_world_def tracker_world_def unset_settings_def
      has_confluence_def has_jira_def confluence_configure_def jira_configure_def)

lemma reply_with_simps [simp]:
  "resp_ok (reply_with code body) = (\<not> (400 \<le> code \<and> code < 600))"
  "body_json (reply_with code body) = body"
  "status_code (reply_with code body) = code"
  "resp_text (reply_with code body) = []"
  by (simp_all add: reply_with_def resp_ok_def)

lemma always_simp [simp]: "always rep log req = rep"
  by (simp add: always_def)

theorem confluence_get_page_validation_and_not_found_witness:
  "confluence_get_page (always (Responds (reply_with 200 (Some (JObj [(''results'', JArr [])])))))
     None None None None wiki_world =
     (Inr (err ''Provide either page_id or both title and space_key.''), wiki_world) \<and>
   (\<exists>msg. fst (confluence_get_page
                 (always (Responds (reply_with 200 (Some (JObj [(''results'', JArr [])])))))
                 None (Some ''X'') (Some ''DEV'') None wiki_world) = Inr (err msg) \<and>
          py_in ''X'' msg \<and> py_in ''DEV'' msg)"
  using confluence_get_page_validation_and_not_found
    [where page_id = None and title = None and space_key = None and t = "''X''" and k = "''DEV''"
       and w = wiki_world and verify_ssl = None
       and net = "always (Responds (reply_with 200 (Some (JObj [(''results'', JArr [])]))))"
       and resp = "reply_with 200 (Some (JObj [(''results'', JArr [])]))"
       and d = "[(''results'', JArr [])]"]
  by simp

section \<open>Configuration\<close>

lemma py_rstrip_idem: "py_rstrip cs (py_rstrip cs s) = py_rstrip cs s"
  by (simp add: py_rstrip_def)

lemma takeWhile_eq_replicate: "takeWhile (\<lambda>x. x = c) xs = replicate (length (takeWhile (\<lambda>x. x = c) xs)) c"
  by (induction xs) simp_all

lemma py_rstrip_slash:
  "\<exists>n. s = py_rstrip ''/'' s @ replicate n (CHR ''/'')"
  "py_rstrip ''/'' s = [] \<or> last (py_rstrip ''/'' s) \<noteq> CHR ''/''"
proof -
  let ?P = "\<lambda>c. c = CHR ''/''"
  have r: "py_rstrip ''/'' s = rev (dropWhile ?P (rev s))" by (simp add: py_rstrip_def)
  have "s = rev (dropWhile ?P (rev s)) @ rev (takeWhile ?P (rev s))" by (rule rstrip_decomp)
  also have "rev (takeWhile ?P (rev s)) = replicate (length (takeWhile ?P (rev s))) (CHR ''/'')"
    using takeWhile_eq_replicate[of "CHR ''/''" "rev s"] by (metis rev_replicate)
  finally show "\<exists>n. s = py_rstrip ''/'' s @ replicate n (CHR ''/'')" unfolding r by blast
  show "py_rstrip ''/'' s = [] \<or> last (py_rstrip ''/'' s) \<noteq> CHR ''/''"
  proof (cases "dropWhile ?P (rev s)")
    case Nil
    then show ?thesis unfolding r by simp
  next
    case (Cons y ys)
    then have "dropWhile ?P (rev s) \<noteq> []" by simp
    then have "\<not> ?P (hd (dropWhile ?P (rev s)))" by (rule hd_dropWhile)
    with Cons show ?thesis unfolding r by simp
  qed
qed

lemma configured_after_configure [simp]:
  "has_confluence (settings (snd (confluence_configure url u p w)))"
  "has_jira (settings (snd (jira_configure url u p w)))"
  by (simp_all add: confluence_configure_def jira_configure_def has_confluence_def has_jira_def)

text \<open>
  Claim C8. After \<open>configure(url, username, password)\<close> of either service the request
  builder hands the transport a request whose URL is \<open>url\<close> without its trailing
  slashes followed by the API path, with exactly that user name and password as Basic
  credentials. For JIRA the next request of any tool is the version probe, which the
  third part covers. The last part says what stripping does: only slashes are removed
  from the end, and none is left there.
\<close>

theorem configure_then_request:
  "(\<exists>q. snd (confluence_request net method path verify_ssl kw (snd (confluence_configure url u p w))) =
          (snd (confluence_configure url u p w))\<lparr>sent := sent w @ [q]\<rparr> \<and>
        fst (confluence_request net method path verify_ssl kw (snd (confluence_configure url u p w))) =
          (case net (sent w) q of Raises e \<Rightarrow> Inl e | Responds r \<Rightarrow> Inr r) \<and>
        req_method q = method \<and> req_url q = py_rstrip ''/'' url @ path \<and>
        req_auth q = (Some u, Some p)) \<and>
   (\<exists>q. snd (jira_request net method path verify_ssl kw (snd (jira_configure url u p w))) =
          (snd (jira_configure url u p w))\<lparr>sent := sent w @ [q]\<rparr> \<and>
        fst (jira_request net method path verify_ssl kw (snd (jira_configure url u p w))) =
          (case net (sent w) q of Raises e \<Rightarrow> Inl e | Responds r \<Rightarrow> Inr r) \<and>
        req_method q = method \<and> req_url q = py_rstrip ''/'' url @ path \<and>
        req_auth q = (Some u, Some p)) \<and>
   (\<exists>q. sent (snd (detect_api_version net verify_ssl (snd (jira_configure url u p w)))) = sent w @ [q] \<and>
        req_method q = ''GET'' \<and> req_url q = py_rstrip ''/'' url @ ''/rest/api/2/serverInfo'' \<and>
        req_auth q = (Some u, Some p)) \<and>
   (\<exists>n. url = py_rstrip ''/'' url @ replicate n (CHR ''/'')) \<and>
   (py_rstrip ''/'' url = [] \<or> last (py_rstrip ''/'' url) \<noteq> CHR ''/'')"
proof (intro conjI)
  let ?wc = "snd (confluence_configure url u p w)"
  let ?qc = "confluence_req (settings ?wc) method path verify_ssl kw"
  have "snd (confluence_request net method path verify_ssl kw ?wc) = ?wc\<lparr>sent := sent w @ [?qc]\<rparr>"
    "fst (confluence_request net method path verify_ssl kw ?wc) =
       (case net (sent w) ?qc of Raises e \<Rightarrow> Inl e | Responds r \<Rightarrow> Inr r)"
    by (simp_all add: confluence_request_configured) (simp_all add: confluence_configure_def)
  moreover have "req_method ?qc = method" "req_url ?qc = py_rstrip ''/'' url @ path"
    "req_auth ?qc = (Some u, Some p)"
    by (simp_all add: confluence_req_def mk_request_def confluence_configure_def py_rstrip_idem)
  ultimately show "\<exists>q. snd (confluence_request net method path verify_ssl kw ?wc) =
          ?wc\<lparr>sent := sent w @ [q]\<rparr> \<and>
        fst (confluence_request net method path verify_ssl kw ?wc) =
          (case net (sent w) q of Raises e \<Rightarrow> Inl e | Responds r \<Rightarrow> Inr r) \<and>
        req_method q = method \<and> req_url q = py_rstrip ''/'' url @ path \<and>
        req_auth q = (Some u, Some p)" by blast
next
  let ?wj = "snd (jira_configure url u p w)"
  let ?qj = "jira_req (settings ?wj) method path verify_ssl kw"
  have "snd (jira_request net method path verify_ssl kw ?wj) = ?wj\<lparr>sent := sent w @ [?qj]\<rparr>"
    "fst (jira_request net method path verify_ssl kw ?wj) =
       (case net (sent w) ?qj of Raises e \<Rightarrow> Inl e | Responds r \<Rightarrow> Inr r)"
    by (simp_all add: jira_request_configured) (simp_all add: jira_configure_def)
  moreover have "req_method ?qj = method" "req_url ?qj = py_rstrip ''/'' url @ path"
    "req_auth ?qj = (Some u, Some p)"
    by (simp_all add: jira_req_def mk_request_def jira_configure_def py_rstrip_idem)
  ultimately show "\<exists>q. snd (jira_request net method path verify_ssl kw ?wj) =
          ?wj\<lparr>sent := sent w @ [q]\<rparr> \<and>
        fst (jira_request net method path verify_ssl kw ?wj) =
          (case net (sent w) q of Raises e \<Rightarrow> Inl e | Responds r \<Rightarrow> Inr r) \<and>
        req_method q = method \<and> req_url q = py_rstrip ''/'' url @ path \<and>
        req_auth q = (Some u, Some p)" by blast
next
  let ?wj = "snd (jira_configure url u p w)"
  let ?q = "jira_req (settings ?wj) ''GET'' ''/rest/api/2/serverInfo'' verify_ssl no_kwargs"
  have "sent (snd (detect_api_version net verify_ssl ?wj)) = sent w @ [?q]"
    by (simp add: detect_world probe_requests_def) (simp add: jira_configure_def)
  moreover have "req_method ?q = ''GET''"
    "req_url ?q = py_rstrip ''/'' url @ ''/rest/api/2/serverInfo''"
    "req_auth ?q = (Some u, Some p)"
    by (simp_all add: jira_req_def mk_request_def jira_configure_def py_rstrip_idem)
  ultimately show "\<exists>q. sent (snd (detect_api_version net verify_ssl ?wj)) = sent w @ [q] \<and>
        req_method q = ''GET'' \<and> req_url q = py_rstrip ''/'' url @ ''/rest/api/2/serverInfo'' \<and>
        req_auth q = (Some u, Some p)" by blast
next
  show "\<exists>n. url = py_rstrip ''/'' url @ replicate n (CHR ''/'')" by (rule py_rstrip_slash)
next
  show "py_rstrip ''/'' url = [] \<or> last (py_rstrip ''/'' url) \<noteq> CHR ''/''" by (rule py_rstrip_slash)
qed

theorem configure_then_request_witness:
  "\<exists>q. sent (snd (detect_api_version (always (Raises (Exn RequestException ''down''))) None
                   (snd (jira_configure ''https://jira.example.com//'' ''bob'' ''hunter2'' fresh_world)))) = [q] \<and>
       req_method q = ''GET'' \<and> req_url q = ''https://jira.example.com/rest/api/2/serverInfo'' \<and>
       req_auth q = (Some ''bob'', Some ''hunter2'')"
  using configure_then_request
    [where url = "''https://jira.example.com//''" and u = "''bob''" and p = "''hunter2''"
       and w = fresh_world and verify_ssl = None
       and net = "always (Raises (Exn RequestException ''down''))"]
  by (simp add: py_rstrip_def)

section \<open>Unconfigured services and empty updates\<close>

lemma handler_not_configured [simp]:
  "confluence_handler (Exn ValueError m) = Inr (err confluence_NOT_CONFIGURED_MSG)"
  "jira_handler (Exn ValueError m) = Inr (err jira_NOT_CONFIGURED_MSG)"
  by (simp_all add: confluence_handler_def jira_handler_def is_ValueError_def)

lemma except_simps [simp]:
  "confluence_except (Inr v) = Inr v"
  "confluence_except (Inl e) = confluence_handler e"
  "jira_except (Inr v) = Inr v"
  "jira_except (Inl e) = jira_handler e"
  by (simp_all add: confluence_except_def jira_except_def)

lemma detect_unconfigured:
  "\<not> has_jira (settings w) \<Longrightarrow>
   snd (detect_api_version net vs w) =
     w\<lparr>api_version := Some (case api_version w of None \<Rightarrow> ''2'' | Some v \<Rightarrow> v)\<rparr>"
  by (simp add: detect_world probe_requests_def)

lemma dict_set_nonempty [simp]: "dict_set k v d \<noteq> []"
  by (cases d) simp_all

lemma foldl_dict_set_nonempty:
  "d \<noteq> [] \<Longrightarrow> foldl (\<lambda>acc kv. dict_set (fst kv) (snd kv) acc) d other \<noteq> []"
  by (induction other arbitrary: d) simp_all

lemma dict_update_empty [simp]: "(dict_update d other = []) = (d = [] \<and> other = [])"
proof (cases other)
  case Nil
  then show ?thesis by (simp add: dict_update_def)
next
  case (Cons kv rest)
  have "foldl (\<lambda>acc kv. dict_set (fst kv) (snd kv) acc) (dict_set (fst kv) (snd kv) d) rest \<noteq> []"
    by (rule foldl_dict_set_nonempty) simp
  with Cons show ?thesis by (simp add: dict_update_def)
qed

lemma jira_update_issue_unfold:
  "jira_update_issue net issue_key summary description assignee labels priority custom_fields
       verify_ssl w =
     (let w1 = snd (detect_api_version net verify_ssl w)
      in if no_update_fields summary description assignee labels priority custom_fields
         then (Inr (err ''No fields to update.''), w1)
         else
           (let flds = set_opt ''summary'' (map_option JStr summary) [];
                flds = set_opt ''description'' (map_option JStr description) flds;
                flds = set_opt ''assignee'' (map_option name_obj assignee) flds;
                flds = set_opt ''labels'' (map_option (\<lambda>ls. JArr (map JStr ls)) labels) flds;
                flds = set_opt ''priority'' (map_option name_obj priority) flds;
                flds = (case custom_fields of None \<Rightarrow> flds
                        | Some cf \<Rightarrow> if cf \<noteq> [] then dict_update flds cf else flds);
                (r, w2) = jira_request net ''PUT'' (''/rest/api/2/issue/'' @ issue_key) verify_ssl
                             (with_json (JObj [(''fields'', JObj flds)])) w1
             in (jira_except (bind_r r (\<lambda>resp.
                   if \<not> resp_ok resp then Inr (resp_err ''Failed to update issue'' resp)
                   else Inr (JObj [(''success'', JBool True), (''key'', JStr issue_key)]))),
                 w2)))"
  by (cases summary; cases description; cases assignee; cases labels; cases priority;
      cases custom_fields)
     (simp_all add: jira_update_issue_def with_probe_eq no_update_fields_def Let_def)


text \<open>
  Claim C2, as amended. An update that supplies none of the optional fields returns the
  error "No fields to update." and sends nothing for the update itself. The version probe,
  which is the first statement of every JIRA tool, has run by then: the call sends exactly
  the probe request when JIRA is configured and the version cache is unset, and no request
  otherwise.
\<close>

theorem jira_update_issue_no_fields:
  "fst (jira_update_issue net issue_key None None None None None None verify_ssl w) =
     Inr (err ''No fields to update.'') \<and>
   sent (snd (jira_update_issue net issue_key None None None None None None verify_ssl w)) =
     sent w @ probe_requests (settings w) (api_version w) verify_ssl \<and>
   probe_requests (settings w) (api_version w) verify_ssl =
     (if has_jira (settings w) \<and> api_version w = None
      then [jira_req (settings w) ''GET'' ''/rest/api/2/serverInfo'' verify_ssl no_kwargs]
      else [])"
  by (simp add: jira_update_issue_unfold no_update_fields_def detect_world probe_requests_def)

theorem jira_update_issue_no_fields_witness:
  "fst (jira_update_issue (always (Responds (reply_with 200 None))) ''PROJ-1''
          None None None None None None None fresh_world) = Inr (err ''No fields to update.'') \<and>
   sent (snd (jira_update_issue (always (Responds (reply_with 200 None))) ''PROJ-1''
          None None None None None None None fresh_world)) = []"
  using jira_update_issue_no_fields
    [where w = fresh_world and net = "always (Responds (reply_with 200 None))"
       and issue_key = "''PROJ-1''" and verify_ssl = None]
  by simp

theorem jira_update_issue_no_fields_probe_sent:
  "sent tracker_world = [] \<and>
   length (sent (snd (jira_update_issue (always (Responds (reply_with 200 None))) ''PROJ-1''
                        None None None None None None None tracker_world))) = 1"
  by (simp add: jira_update_issue_unfold no_update_fields_def detect_world probe_requests_def)

text \<open>
  Claim C1, as amended. While a service is not configured none of its tools issues a
  request: the request log is left as it was, and only the cached API version changes (for
  JIRA). Every tool returns the fixed not-configured message of its service, with two
  exceptions that check their arguments before they build a request:
  \<open>confluence_get_page\<close> without a usable page id or title and space key returns its
  validation error, and \<open>jira_update_issue\<close> with nothing to update returns
  "No fields to update.".
\<close>

theorem unconfigured_tools:
  "(\<not> has_confluence (settings w) \<longrightarrow>
      confluence_search net query max_results space_key verify_ssl w =
        (Inr (err confluence_NOT_CONFIGURED_MSG), w) \<and>
      confluence_get_page net page_id title space_key verify_ssl w =
        (Inr (err (if truthy_str page_id \<or> truthy_str title \<and> truthy_str space_key
                   then confluence_NOT_CONFIGURED_MSG
                   else ''Provide either page_id or both title and space_key.'')), w) \<and>
      confluence_create_page net new_space new_title body parent_id verify_ssl w =
        (Inr (err confluence_NOT_CONFIGURED_MSG), w) \<and>
      confluence_update_page net upd_id upd_title body version_comment verify_ssl w =
        (Inr (err confluence_NOT_CONFIGURED_MSG), w)) \<and>
   (\<not> has_jira (settings w) \<longrightarrow>
      jira_search net jql max_issues flds verify_ssl w =
        (Inr (err jira_NOT_CONFIGURED_MSG),
         w\<lparr>api_version := Some (case api_version w of None \<Rightarrow> ''2'' | Some v \<Rightarrow> v)\<rparr>) \<and>
      jira_get_issue net issue_key expand verify_ssl w =
        (Inr (err jira_NOT_CONFIGURED_MSG),
         w\<lparr>api_version := Some (case api_version w of None \<Rightarrow> ''2'' | Some v \<Rightarrow> v)\<rparr>) \<and>
      jira_create_issue net project_key summary issue_type description priority assignee labels
          custom_fields verify_ssl w =
        (Inr (err jira_NOT_CONFIGURED_MSG),
         w\<lparr>api_version := Some (case api_version w of None \<Rightarrow> ''2'' | Some v \<Rightarrow> v)\<rparr>) \<and>
      jira_update_issue net issue_key upd_summary description assignee labels priority
          custom_fields verify_ssl w =
        (Inr (err (if no_update_fields upd_summary description assignee labels priority custom_fields
                   then ''No fields to update.'' else jira_NOT_CONFIGURED_MSG)),
         w\<lparr>api_version := Some (case api_version w of None \<Rightarrow> ''2'' | Some v \<Rightarrow> v)\<rparr>) \<and>
      jira_add_comment net issue_key body verify_ssl w =
        (Inr (err jira_NOT_CONFIGURED_MSG),
         w\<lparr>api_version := Some (case api_version w of None \<Rightarrow> ''2'' | Some v \<Rightarrow> v)\<rparr>) \<and>
      jira_transition_issue net issue_key transition verify_ssl w =
        (Inr (err jira_NOT_CONFIGURED_MSG),
         w\<lparr>api_version := Some (case api_version w of None \<Rightarrow> ''2'' | Some v \<Rightarrow> v)\<rparr>))"
proof (intro conjI impI)
  assume c: "\<not> has_confluence (settings w)"
  show "confluence_search net query max_results space_key verify_ssl w =
        (Inr (err confluence_NOT_CONFIGURED_MSG), w)"
    using c by (simp add: confluence_search_def confluence_request_unconfigured)
  show "confluence_get_page net page_id title space_key verify_ssl w =
        (Inr (err (if truthy_str page_id \<or> truthy_str title \<and> truthy_str space_key
                   then confluence_NOT_CONFIGURED_MSG
                   else ''Provide either page_id or both title and space_key.'')), w)"
    using c by (auto simp: confluence_get_page_def confluence_request_unconfigured Let_def)
  show "confluence_create_page net new_space new_title body parent_id verify_ssl w =
        (Inr (err confluence_NOT_CONFIGURED_MSG), w)"
    using c by (simp add: confluence_create_page_def confluence_request_unconfigured)
  show "confluence_update_page net upd_id upd_title body version_comment verify_ssl w =
        (Inr (err confluence_NOT_CONFIGURED_MSG), w)"
    using c by (simp add: confluence_update_page_def confluence_request_unconfigured
        fetch_version_def)
next
  let ?w1 = "w\<lparr>api_version := Some (case api_version w of None \<Rightarrow> ''2'' | Some v \<Rightarrow> v)\<rparr>"
  assume j: "\<not> has_jira (settings w)"
  then have d: "snd (detect_api_version net verify_ssl w) = ?w1" by (rule detect_unconfigured)
  from j have j1: "\<not> has_jira (settings ?w1)" by simp
  show "jira_search net jql max_issues flds verify_ssl w = (Inr (err jira_NOT_CONFIGURED_MSG), ?w1)"
    by (simp add: jira_search_def with_probe_eq d jira_request_unconfigured[OF j1])
  show "jira_get_issue net issue_key expand verify_ssl w = (Inr (err jira_NOT_CONFIGURED_MSG), ?w1)"
    by (simp add: jira_get_issue_def with_probe_eq d jira_request_unconfigured[OF j1])
  show "jira_create_issue net project_key summary issue_type description priority assignee labels
          custom_fields verify_ssl w = (Inr (err jira_NOT_CONFIGURED_MSG), ?w1)"
    by (simp add: jira_create_issue_def with_probe_eq d jira_request_unconfigured[OF j1])
  show "jira_update_issue net issue_key upd_summary description assignee labels priority
          custom_fields verify_ssl w =
        (Inr (err (if no_update_fields upd_summary description assignee labels priority custom_fields
                   then ''No fields to update.'' else jira_NOT_CONFIGURED_MSG)), ?w1)"
    by (simp add: jira_update_issue_unfold d jira_request_unconfigured[OF j1])
  show "jira_add_comment net issue_key body verify_ssl w = (Inr (err jira_NOT_CONFIGURED_MSG), ?w1)"
    by (simp add: jira_add_comment_def with_probe_eq d jira_request_unconfigured[OF j1])
  show "jira_transition_issue net issue_key transition verify_ssl w =
        (Inr (err jira_NOT_CONFIGURED_MSG), ?w1)"
    by (simp add: jira_transition_issue_def with_probe_eq d jira_request_unconfigured[OF j1]
        choose_transition_def)
qed

theorem unconfigured_tools_witness:
  "confluence_search (always (Responds (reply_with 200 None))) ''text'' 10 None None fresh_world =
     (Inr (err confluence_NOT_CONFIGURED_MSG), fresh_world) \<and>
   jira_transition_issue (always (Responds (reply_with 200 None))) ''PROJ-1'' ''Done'' None fresh_world =
     (Inr (err jira_NOT_CONFIGURED_MSG), fresh_world\<lparr>api_version := Some ''2''\<rparr>)"
  using unconfigured_tools
    [where w = fresh_world and net = "always (Responds (reply_with 200 None))"
       and query = "''text''" and max_results = 10 and space_key = None and verify_ssl = None
       and issue_key = "''PROJ-1''" and transition = "''Done''"]
  by simp

theorem unconfigured_get_page_validation_first:
  "\<not> has_confluence (settings fresh_world) \<and>
   fst (confluence_get_page (always (Responds (reply_with 200 None))) None None None None fresh_world)
     \<noteq> Inr (err confluence_NOT_CONFIGURED_MSG)"
  by (simp add: confluence_get_page_def err_def confluence_NOT_CONFIGURED_MSG_def)

section \<open>Two-step operations\<close>

lemma handler_transport_error [simp]:
  "confluence_handler (Exn RequestException m) = Inr (err (''Confluence request error: '' @ m))"
  "jira_handler (Exn RequestException m) = Inr (err (''JIRA request error: '' @ m))"
  by (simp_all add: confluence_handler_def jira_handler_def is_ValueError_def
      is_RequestException_def)

lemma handler_decode_error [simp]:
  "confluence_handler (Exn RequestValueError m) = Inr (err confluence_NOT_CONFIGURED_MSG)"
  "jira_handler (Exn RequestValueError m) = Inr (err jira_NOT_CONFIGURED_MSG)"
  by (simp_all add: confluence_handler_def jira_handler_def is_ValueError_def)

lemma fetch_version_failed:
  "fetch_version (Inl e) = (case confluence_handler e of Inl e' \<Rightarrow> Inl e' | Inr res \<Rightarrow> Inr (Inl res))"
  "\<not> resp_ok resp \<Longrightarrow>
   fetch_version (Inr resp) = Inr (Inl (resp_err ''Failed to get page version'' resp))"
  by (simp_all add: fetch_version_def)

lemma update_page_first_step_fails:
  assumes "confluence_request net ''GET'' (''/rest/api/content/'' @ page_id) verify_ssl
             (with_params [(''expand'', ''version'')]) w = (r1, w1)"
    and "case r1 of Inl e \<Rightarrow> True | Inr resp \<Rightarrow> \<not> resp_ok resp"
  shows "confluence_update_page net page_id title body version_comment verify_ssl w =
           ((case r1 of Inl e \<Rightarrow> confluence_handler e
             | Inr resp \<Rightarrow> Inr (resp_err ''Failed to get page version'' resp)), w1)"
proof (cases r1)
  case (Inl e)
  with assms(1) show ?thesis
    by (cases "confluence_handler e")
       (simp_all add: confluence_update_page_def fetch_version_failed)
next
  case (Inr resp)
  with assms show ?thesis
    by (simp add: confluence_update_page_def fetch_version_failed)
qed

text \<open>
  Claim C3. When the GET that reads the current version of the page fails,
  \<open>confluence_update_page\<close> returns the error of that failure and stops: for a service
  that is not configured the not-configured message and no request at all; for a
  transport error or a failure status the matching error, with the GET as the only request
  added to the log. The last part covers every failure of the first step at once: the
  world after the call is the world after the GET, so no PUT has been attempted.
\<close>

theorem confluence_update_page_aborts_on_failed_get:
  "(\<not> has_confluence (settings w) \<longrightarrow>
      confluence_update_page net page_id title body version_comment verify_ssl w =
        (Inr (err confluence_NOT_CONFIGURED_MSG), w)) \<and>
   (has_confluence (settings w) \<and>
    net (sent w) (confluence_req (settings w) ''GET'' (''/rest/api/content/'' @ page_id) verify_ssl
                    (with_params [(''expand'', ''version'')])) = Raises (Exn RequestException m) \<longrightarrow>
      confluence_update_page net page_id title body version_comment verify_ssl w =
        (Inr (err (''Confluence request error: '' @ m)),
         w\<lparr>sent := sent w @ [confluence_req (settings w) ''GET'' (''/rest/api/content/'' @ page_id)
                                 verify_ssl (with_params [(''expand'', ''version'')])]\<rparr>)) \<and>
   (has_confluence (settings w) \<and>
    net (sent w) (confluence_req (settings w) ''GET'' (''/rest/api/content/'' @ page_id) verify_ssl
                    (with_params [(''expand'', ''version'')])) = Responds resp \<and>
    \<not> resp_ok resp \<longrightarrow>
      confluence_update_page net page_id title body version_comment verify_ssl w =
        (Inr (resp_err ''Failed to get page version'' resp),
         w\<lparr>sent := sent w @ [confluence_req (settings w) ''GET'' (''/rest/api/content/'' @ page_id)
                                 verify_ssl (with_params [(''expand'', ''version'')])]\<rparr>)) \<and>
   req_method (confluence_req (settings w) ''GET'' (''/rest/api/content/'' @ page_id) verify_ssl
                 (with_params [(''expand'', ''version'')])) = ''GET'' \<and>
   ((case fst (confluence_request net ''GET'' (''/rest/api/content/'' @ page_id) verify_ssl
                 (with_params [(''expand'', ''version'')]) w) of
       Inl e \<Rightarrow> True | Inr r \<Rightarrow> \<not> resp_ok r) \<longrightarrow>
      snd (confluence_update_page net page_id title body version_comment verify_ssl w) =
      snd (confluence_request net ''GET'' (''/rest/api/content/'' @ page_id) verify_ssl
             (with_params [(''expand'', ''version'')]) w))"
proof (intro conjI impI)
  assume "\<not> has_confluence (settings w)"
  then show "confluence_update_page net page_id title body version_comment verify_ssl w =
        (Inr (err confluence_NOT_CONFIGURED_MSG), w)"
    by (simp add: update_page_first_step_fails[OF confluence_request_unconfigured])
next
  let ?get = "confluence_req (settings w) ''GET'' (''/rest/api/content/'' @ page_id) verify_ssl
                    (with_params [(''expand'', ''version'')])"
  assume a: "has_confluence (settings w) \<and> net (sent w) ?get = Raises (Exn RequestException m)"
  then have "confluence_request net ''GET'' (''/rest/api/content/'' @ page_id) verify_ssl
             (with_params [(''expand'', ''version'')]) w =
             (Inl (Exn RequestException m), w\<lparr>sent := sent w @ [?get]\<rparr>)"
    by (simp add: confluence_request_configured send_request_def)
  then show "confluence_update_page net page_id title body version_comment verify_ssl w =
        (Inr (err (''Confluence request error: '' @ m)), w\<lparr>sent := sent w @ [?get]\<rparr>)"
    by (simp add: update_page_first_step_fails)
next
  let ?get = "confluence_req (settings w) ''GET'' (''/rest/api/content/'' @ page_id) verify_ssl
                    (with_params [(''expand'', ''version'')])"
  assume a: "has_confluence (settings w) \<and> net (sent w) ?get = Responds resp \<and> \<not> resp_ok resp"
  then have "confluence_request net ''GET'' (''/rest/api/content/'' @ page_id) verify_ssl
             (with_params [(''expand'', ''version'')]) w =
             (Inr resp, w\<lparr>sent := sent w @ [?get]\<rparr>)"
    by (simp add: confluence_request_configured send_request_def)
  with a show "confluence_update_page net page_id title body version_comment verify_ssl w =
        (Inr (resp_err ''Failed to get page version'' resp), w\<lparr>sent := sent w @ [?get]\<rparr>)"
    by (simp add: update_page_first_step_fails)
next
  show "req_method (confluence_req (settings w) ''GET'' (''/rest/api/content/'' @ page_id) verify_ssl
                 (with_params [(''expand'', ''version'')])) = ''GET''"
    by (simp add: confluence_req_def mk_request_def)
next
  let ?first = "confluence_request net ''GET'' (''/rest/api/content/'' @ page_id) verify_ssl
                 (with_params [(''expand'', ''version'')]) w"
  assume "case fst ?first of Inl e \<Rightarrow> True | Inr r \<Rightarrow> \<not> resp_ok r"
  then show "snd (confluence_update_page net page_id title body version_comment verify_ssl w) =
      snd ?first"
    using update_page_first_step_fails[of net page_id verify_ssl w "fst ?first" "snd ?first"]
    by simp
qed

theorem confluence_update_page_aborts_on_failed_get_witness:
  "confluence_update_page (always (Responds (reply_with 404 None))) ''123'' ''T'' ''<p>b</p>'' None None
     fresh_world = (Inr (err confluence_NOT_CONFIGURED_MSG), fresh_world) \<and>
   confluence_update_page (always (Raises (Exn RequestException ''timed out''))) ''123'' ''T''
     ''<p>b</p>'' None None wiki_world =
     (Inr (err ''Confluence request error: timed out''),
      wiki_world\<lparr>sent := [confluence_req (settings wiki_world) ''GET'' ''/rest/api/content/123'' None
                              (with_params [(''expand'', ''version'')])]\<rparr>) \<and>
   confluence_update_page (always (Responds (reply_with 404 None))) ''123'' ''T'' ''<p>b</p>'' None None
     wiki_world =
     (Inr (resp_err ''Failed to get page version'' (reply_with 404 None)),
      wiki_world\<lparr>sent := [confluence_req (settings wiki_world) ''GET'' ''/rest/api/content/123'' None
                              (with_params [(''expand'', ''version'')])]\<rparr>)"
  using confluence_update_page_aborts_on_failed_get
    [where w = fresh_world and net = "always (Responds (reply_with 404 None))"
       and page_id = "''123''" and title = "''T''" and body = "''<p>b</p>''"
       and version_comment = None and verify_ssl = None]
    confluence_update_page_aborts_on_failed_get
    [where w = wiki_world and net = "always (Raises (Exn RequestException ''timed out''))"
       and page_id = "''123''" and title = "''T''" and body = "''<p>b</p>''"
       and version_comment = None and verify_ssl = None and m = "''timed out''"]
    confluence_update_page_aborts_on_failed_get
    [where w = wiki_world and net = "always (Responds (reply_with 404 None))"
       and page_id = "''123''" and title = "''T''" and body = "''<p>b</p>''"
       and version_comment = None and verify_ssl = None and resp = "reply_with 404 None"]
  by simp

section \<open>Transitions\<close>








lemma detect_settings [simp]: "settings (snd (detect_api_version net vs w)) = settings w"
  by (simp add: detect_world)















section \<open>Bodies that are not JSON\<close>

lemma resp_json_undecodable:
  "body_json resp = None \<Longrightarrow> resp_json resp = Inl (Exn RequestValueError ''JSONDecodeError'')"
  by (simp add: resp_json_def)

lemma both_world_facts [simp]:
  "has_confluence (settings both_world)" "has_jira (settings both_world)"
  "api_version both_world = None" "sent both_world = []"
  by (simp_all add: both_world_def wiki_world_def fresh_world_def unset_settings_def
      has_confluence_def has_jira_def confluence_configure_def jira_configure_def)

lemma first_then_simps [simp]:
  "first_then r1 r2 [] req = r1"
  "first_then r1 r2 (log @ [q]) req = r2"
  "first_then r1 r2 (q # log) req = r2"
  by (simp_all add: first_then_def)

lemma undecodable_confluence:
  assumes "resp_ok resp" "body_json resp = None"
    and "has_confluence (settings w)" "\<forall>q. net (sent w) q = Responds resp"
  shows "fst (confluence_search net query max_results space_key verify_ssl w) =
           Inr (err confluence_NOT_CONFIGURED_MSG)"
    and "truthy_str page_id \<or> truthy_str title \<and> truthy_str space_key \<Longrightarrow>
         fst (confluence_get_page net page_id title space_key verify_ssl w) =
           Inr (err confluence_NOT_CONFIGURED_MSG)"
    and "fst (confluence_create_page net new_space new_title body parent_id verify_ssl w) =
           Inr (err confluence_NOT_CONFIGURED_MSG)"
    and "fst (confluence_update_page net upd_id upd_title body version_comment verify_ssl w) =
           Inr (err confluence_NOT_CONFIGURED_MSG)"
proof -
  note s = confluence_request_configured[OF assms(3)] send_request_def
    resp_json_undecodable[OF assms(2)] Let_def
  show "fst (confluence_search net query max_results space_key verify_ssl w) =
           Inr (err confluence_NOT_CONFIGURED_MSG)"
    using assms(1,4) by (simp add: confluence_search_def s)
  show "fst (confluence_get_page net page_id title space_key verify_ssl w) =
           Inr (err confluence_NOT_CONFIGURED_MSG)"
    if "truthy_str page_id \<or> truthy_str title \<and> truthy_str space_key"
    using assms(1,4) that by (auto simp: confluence_get_page_def s)
  show "fst (confluence_create_page net new_space new_title body parent_id verify_ssl w) =
           Inr (err confluence_NOT_CONFIGURED_MSG)"
    using assms(1,4) by (simp add: confluence_create_page_def s)
  show "fst (confluence_update_page net upd_id upd_title body version_comment verify_ssl w) =
           Inr (err confluence_NOT_CONFIGURED_MSG)"
    using assms(1,4) by (simp add: confluence_update_page_def fetch_version_def s)
qed

lemma undecodable_put:
  assumes "resp_ok resp" "body_json resp = None"
    and "has_confluence (settings w)"
    and "net (sent w) (confluence_req (settings w) ''GET'' (''/rest/api/content/'' @ upd_id)
                         verify_ssl (with_params [(''expand'', ''version'')])) = Responds r1"
    and "resp_ok r1" "body_json r1 = Some (JObj d1)"
    and "map_of d1 ''version'' = Some (JObj v)" "map_of v ''number'' = Some (JInt n)"
    and "\<forall>q. net (sent w @ [confluence_req (settings w) ''GET'' (''/rest/api/content/'' @ upd_id)
                                verify_ssl (with_params [(''expand'', ''version'')])]) q =
             Responds resp"
  shows "fst (confluence_update_page net upd_id upd_title body version_comment verify_ssl w) =
           Inr (err confluence_NOT_CONFIGURED_MSG)"
proof -
  let ?get = "confluence_req (settings w) ''GET'' (''/rest/api/content/'' @ upd_id)
                         verify_ssl (with_params [(''expand'', ''version'')])"
  let ?w1 = "w\<lparr>sent := sent w @ [?get]\<rparr>"
  have 1: "confluence_request net ''GET'' (''/rest/api/content/'' @ upd_id) verify_ssl
             (with_params [(''expand'', ''version'')]) w = (Inr r1, ?w1)"
    using assms(3,4) by (simp add: confluence_request_configured send_request_def)
  have 2: "fetch_version (Inr r1) = Inr (Inr (JInt n))"
    using assms(5-8) by (simp add: fetch_version_def resp_json_def)
  show ?thesis
    unfolding confluence_update_page_def 1
    using assms(1,2,3,9)
    by (simp add: 2 confluence_request_configured
        send_request_def resp_json_undecodable Let_def)
qed

lemma undecodable_jira:
  assumes "resp_ok resp" "body_json resp = None"
    and "has_jira (settings w)"
    and "\<forall>q. net (sent (snd (detect_api_version net verify_ssl w))) q = Responds resp"
  shows "fst (jira_search net jql max_issues flds verify_ssl w) = Inr (err jira_NOT_CONFIGURED_MSG)"
    and "fst (jira_get_issue net issue_key expand verify_ssl w) = Inr (err jira_NOT_CONFIGURED_MSG)"
    and "fst (jira_create_issue net project_key summary issue_type description priority assignee
                labels custom_fields verify_ssl w) = Inr (err jira_NOT_CONFIGURED_MSG)"
    and "fst (jira_add_comment net issue_key body verify_ssl w) = Inr (err jira_NOT_CONFIGURED_MSG)"
    and "fst (jira_transition_issue net issue_key wanted verify_ssl w) =
           Inr (err jira_NOT_CONFIGURED_MSG)"
    and "\<not> no_update_fields upd_summary description assignee labels priority custom_fields \<Longrightarrow>
         fst (jira_update_issue net issue_key upd_summary description assignee labels priority
                custom_fields verify_ssl w) =
           Inr (JObj [(''success'', JBool True), (''key'', JStr issue_key)])"
proof -
  let ?w1 = "snd (detect_api_version net verify_ssl w)"
  have c: "has_jira (settings ?w1)" using assms(3) by simp
  note s = with_probe_eq jira_request_configured[OF c] send_request_def
    resp_json_undecodable[OF assms(2)] Let_def
  show "fst (jira_search net jql max_issues flds verify_ssl w) = Inr (err jira_NOT_CONFIGURED_MSG)"
    using assms(1,4) by (simp add: jira_search_def s)
  show "fst (jira_get_issue net issue_key expand verify_ssl w) = Inr (err jira_NOT_CONFIGURED_MSG)"
    using assms(1,4) by (simp add: jira_get_issue_def s)
  show "fst (jira_create_issue net project_key summary issue_type description priority assignee
                labels custom_fields verify_ssl w) = Inr (err jira_NOT_CONFIGURED_MSG)"
    using assms(1,4) by (simp add: jira_create_issue_def s)
  show "fst (jira_add_comment net issue_key body verify_ssl w) = Inr (err jira_NOT_CONFIGURED_MSG)"
    using assms(1,4) by (simp add: jira_add_comment_def s)
  show "fst (jira_transition_issue net issue_key wanted verify_ssl w) =
           Inr (err jira_NOT_CONFIGURED_MSG)"
    using assms(1,4) by (simp add: jira_transition_issue_def choose_transition_def s)
  show "fst (jira_update_issue net issue_key upd_summary description assignee labels priority
                custom_fields verify_ssl w) =
           Inr (JObj [(''success'', JBool True), (''key'', JStr issue_key)])"
    if "\<not> no_update_fields upd_summary description assignee labels priority custom_fields"
    using assms(1,4) that by (simp add: jira_update_issue_unfold s)
qed


text \<open>
  Claim C10, as amended. Let the service be configured and let the request of a tool be
  answered with a success status and a body that is not JSON. Every tool that decodes the
  body returns the fixed not-configured message of its service: the four Confluence tools
  (\<open>confluence_update_page\<close> at its GET and at its PUT) and, for JIRA, search, get_issue,
  create_issue, add_comment and the listing step of transition_issue. \<open>jira_update_issue\<close>
  does not decode the body and returns its success result.
\<close>

theorem undecodable_body_reported_as_not_configured:
  "resp_ok resp \<and> body_json resp = None \<longrightarrow>
   (has_confluence (settings w) \<and> (\<forall>q. net (sent w) q = Responds resp) \<longrightarrow>
      fst (confluence_search net query max_results space_key verify_ssl w) =
        Inr (err confluence_NOT_CONFIGURED_MSG) \<and>
      (truthy_str page_id \<or> truthy_str title \<and> truthy_str space_key \<longrightarrow>
         fst (confluence_get_page net page_id title space_key verify_ssl w) =
           Inr (err confluence_NOT_CONFIGURED_MSG)) \<and>
      fst (confluence_create_page net new_space new_title body parent_id verify_ssl w) =
        Inr (err confluence_NOT_CONFIGURED_MSG) \<and>
      fst (confluence_update_page net upd_id upd_title body version_comment verify_ssl w) =
        Inr (err confluence_NOT_CONFIGURED_MSG)) \<and>
   (has_confluence (settings w) \<and>
    net (sent w) (confluence_req (settings w) ''GET'' (''/rest/api/content/'' @ upd_id)
                    verify_ssl (with_params [(''expand'', ''version'')])) = Responds r1 \<and>
    resp_ok r1 \<and> body_json r1 = Some (JObj d1) \<and>
    map_of d1 ''version'' = Some (JObj v) \<and> map_of v ''number'' = Some (JInt n) \<and>
    (\<forall>q. net (sent w @ [confluence_req (settings w) ''GET'' (''/rest/api/content/'' @ upd_id)
                           verify_ssl (with_params [(''expand'', ''version'')])]) q =
         Responds resp) \<longrightarrow>
      fst (confluence_update_page net upd_id upd_title body version_comment verify_ssl w) =
        Inr (err confluence_NOT_CONFIGURED_MSG)) \<and>
   (has_jira (settings w) \<and>
    (\<forall>q. net (sent (snd (detect_api_version net verify_ssl w))) q = Responds resp) \<longrightarrow>
      fst (jira_search net jql max_issues flds verify_ssl w) = Inr (err jira_NOT_CONFIGURED_MSG) \<and>
      fst (jira_get_issue net issue_key expand verify_ssl w) = Inr (err jira_NOT_CONFIGURED_MSG) \<and>
      fst (jira_create_issue net project_key summary issue_type description priority assignee
             labels custom_fields verify_ssl w) = Inr (err jira_NOT_CONFIGURED_MSG) \<and>
      fst (jira_add_comment net issue_key body verify_ssl w) = Inr (err jira_NOT_CONFIGURED_MSG) \<and>
      fst (jira_transition_issue net issue_key wanted verify_ssl w) =
        Inr (err jira_NOT_CONFIGURED_MSG) \<and>
      (\<not> no_update_fields upd_summary description assignee labels priority custom_fields \<longrightarrow>
         fst (jira_update_issue net issue_key upd_summary description assignee labels priority
                custom_fields verify_ssl w) =
           Inr (JObj [(''success'', JBool True), (''key'', JStr issue_key)])))"
proof (intro impI)
  assume r: "resp_ok resp \<and> body_json resp = None"
  then have ok: "resp_ok resp" and bad: "body_json resp = None" by simp_all
  have c: "fst (confluence_search net query max_results space_key verify_ssl w) =
        Inr (err confluence_NOT_CONFIGURED_MSG) \<and>
      (truthy_str page_id \<or> truthy_str title \<and> truthy_str space_key \<longrightarrow>
         fst (confluence_get_page net page_id title space_key verify_ssl w) =
           Inr (err confluence_NOT_CONFIGURED_MSG)) \<and>
      fst (confluence_create_page net new_space new_title body parent_id verify_ssl w) =
        Inr (err confluence_NOT_CONFIGURED_MSG) \<and>
      fst (confluence_update_page net upd_id upd_title body version_comment verify_ssl w) =
        Inr (err confluence_NOT_CONFIGURED_MSG)"
    if "has_confluence (settings w) \<and> (\<forall>q. net (sent w) q = Responds resp)"
  proof -
    from that have h: "has_confluence (settings w)" "\<forall>q. net (sent w) q = Responds resp"
      by simp_all
    show ?thesis by (simp add: undecodable_confluence[where net = net and w = w and resp = resp, OF ok bad h])
  qed
  have p: "fst (confluence_update_page net upd_id upd_title body version_comment verify_ssl w) =
        Inr (err confluence_NOT_CONFIGURED_MSG)"
    if "has_confluence (settings w) \<and>
    net (sent w) (confluence_req (settings w) ''GET'' (''/rest/api/content/'' @ upd_id)
                    verify_ssl (with_params [(''expand'', ''version'')])) = Responds r1 \<and>
    resp_ok r1 \<and> body_json r1 = Some (JObj d1) \<and>
    map_of d1 ''version'' = Some (JObj v) \<and> map_of v ''number'' = Some (JInt n) \<and>
    (\<forall>q. net (sent w @ [confluence_req (settings w) ''GET'' (''/rest/api/content/'' @ upd_id)
                           verify_ssl (with_params [(''expand'', ''version'')])]) q =
         Responds resp)"
    using undecodable_put[where net = net and w = w and resp = resp and verify_ssl = verify_ssl and upd_id = upd_id and ?r1.0 = r1 and ?d1.0 = d1 and v = v and n = n, OF ok bad] that by simp
  have j: "fst (jira_search net jql max_issues flds verify_ssl w) = Inr (err jira_NOT_CONFIGURED_MSG) \<and>
      fst (jira_get_issue net issue_key expand verify_ssl w) = Inr (err jira_NOT_CONFIGURED_MSG) \<and>
      fst (jira_create_issue net project_key summary issue_type description priority assignee
             labels custom_fields verify_ssl w) = Inr (err jira_NOT_CONFIGURED_MSG) \<and>
      fst (jira_add_comment net issue_key body verify_ssl w) = Inr (err jira_NOT_CONFIGURED_MSG) \<and>
      fst (jira_transition_issue net issue_key wanted verify_ssl w) =
        Inr (err jira_NOT_CONFIGURED_MSG) \<and>
      (\<not> no_update_fields upd_summary description assignee labels priority custom_fields \<longrightarrow>
         fst (jira_update_issue net issue_key upd_summary description assignee labels priority
                custom_fields verify_ssl w) =
           Inr (JObj [(''success'', JBool True), (''key'', JStr issue_key)]))"
    if "has_jira (settings w) \<and>
        (\<forall>q. net (sent (snd (detect_api_version net verify_ssl w))) q = Responds resp)"
  proof -
    from that have h: "has_jira (settings w)"
      "\<forall>q. net (sent (snd (detect_api_version net verify_ssl w))) q = Responds resp"
      by simp_all
    show ?thesis by (simp add: undecodable_jira[where net = net and w = w and resp = resp and verify_ssl = verify_ssl, OF ok bad h])
  qed
  from c p j show "(has_confluence (settings w) \<and> (\<forall>q. net (sent w) q = Responds resp) \<longrightarrow>
      fst (confluence_search net query max_results space_key verify_ssl w) =
        Inr (err confluence_NOT_CONFIGURED_MSG) \<and>
      (truthy_str page_id \<or> truthy_str title \<and> truthy_str space_key \<longrightarrow>
         fst (confluence_get_page net page_id title space_key verify_ssl w) =
           Inr (err confluence_NOT_CONFIGURED_MSG)) \<and>
      fst (confluence_create_page net new_space new_title body parent_id verify_ssl w) =
        Inr (err confluence_NOT_CONFIGURED_MSG) \<and>
      fst (confluence_update_page net upd_id upd_title body version_comment verify_ssl w) =
        Inr (err confluence_NOT_CONFIGURED_MSG)) \<and>
   (has_confluence (settings w) \<and>
    net (sent w) (confluence_req (settings w) ''GET'' (''/rest/api/content/'' @ upd_id)
                    verify_ssl (with_params [(''expand'', ''version'')])) = Responds r1 \<and>
    resp_ok r1 \<and> body_json r1 = Some (JObj d1) \<and>
    map_of d1 ''version'' = Some (JObj v) \<and> map_of v ''number'' = Some (JInt n) \<and>
    (\<forall>q. net (sent w @ [confluence_req (settings w) ''GET'' (''/rest/api/content/'' @ upd_id)
                           verify_ssl (with_params [(''expand'', ''version'')])]) q =
         Responds resp) \<longrightarrow>
      fst (confluence_update_page net upd_id upd_title body version_comment verify_ssl w) =
        Inr (err confluence_NOT_CONFIGURED_MSG)) \<and>
   (has_jira (settings w) \<and>
    (\<forall>q. net (sent (snd (detect_api_version net verify_ssl w))) q = Responds resp) \<longrightarrow>
      fst (jira_search net jql max_issues flds verify_ssl w) = Inr (err jira_NOT_CONFIGURED_MSG) \<and>
      fst (jira_get_issue net issue_key expand verify_ssl w) = Inr (err jira_NOT_CONFIGURED_MSG) \<and>
      fst (jira_create_issue net project_key summary issue_type description priority assignee
             labels custom_fields verify_ssl w) = Inr (err jira_NOT_CONFIGURED_MSG) \<and>
      fst (jira_add_comment net issue_key body verify_ssl w) = Inr (err jira_NOT_CONFIGURED_MSG) \<and>
      fst (jira_transition_issue net issue_key wanted verify_ssl w) =
        Inr (err jira_NOT_CONFIGURED_MSG) \<and>
      (\<not> no_update_fields upd_summary description assignee labels priority custom_fields \<longrightarrow>
         fst (jira_update_issue net issue_key upd_summary description assignee labels priority
                custom_fields verify_ssl w) =
           Inr (JObj [(''success'', JBool True), (''key'', JStr issue_key)])))"
    by blast
qed

theorem undecodable_body_reported_as_not_configured_witness:
  "fst (confluence_search (always (Responds (reply_with 200 None))) ''deployment'' 10 None None
          both_world) = Inr (err confluence_NOT_CONFIGURED_MSG) \<and>
   fst (confluence_get_page (always (Responds (reply_with 200 None))) (Some ''123'') None None None
          both_world) = Inr (err confluence_NOT_CONFIGURED_MSG) \<and>
   fst (jira_get_issue (always (Responds (reply_with 200 None))) ''PROJ-1'' None None both_world) =
     Inr (err jira_NOT_CONFIGURED_MSG) \<and>
   fst (jira_update_issue (always (Responds (reply_with 200 None))) ''PROJ-1'' (Some ''new'')
          None None None None None None both_world) =
     Inr (JObj [(''success'', JBool True), (''key'', JStr ''PROJ-1'')]) \<and>
   fst (confluence_update_page
          (first_then (Responds (reply_with 200 (Some (JObj [(''version'', JObj [(''number'', JInt 4)])]))))
                      (Responds (reply_with 200 None)))
          ''123'' ''T'' ''<p>b</p>'' None None both_world) = Inr (err confluence_NOT_CONFIGURED_MSG)"
  using undecodable_body_reported_as_not_configured
    [where w = both_world and net = "always (Responds (reply_with 200 None))"
       and resp = "reply_with 200 None" and verify_ssl = None
       and query = "''deployment''" and max_results = 10 and space_key = None
       and page_id = "Some ''123''" and title = None
       and issue_key = "''PROJ-1''" and expand = None
       and upd_summary = "Some ''new''" and description = None and assignee = None
       and labels = None and priority = None and custom_fields = None]
    undecodable_body_reported_as_not_configured
    [where w = both_world
       and net = "first_then (Responds (reply_with 200 (Some (JObj [(''version'', JObj [(''number'', JInt 4)])]))))
                      (Responds (reply_with 200 None))"
       and resp = "reply_with 200 None" and verify_ssl = None
       and ?r1.0 = "reply_with 200 (Some (JObj [(''version'', JObj [(''number'', JInt 4)])]))"
       and ?d1.0 = "[(''version'', JObj [(''number'', JInt 4)])]"
       and v = "[(''number'', JInt 4)]" and n = 4
       and upd_id = "''123''" and upd_title = "''T''" and body = "''<p>b</p>''"
       and version_comment = None]
  by (simp add: detect_world probe_requests_def no_update_fields_def reply_with_def resp_ok_def)

theorem jira_update_issue_ignores_body:
  "has_jira (settings tracker_world) \<and>
   resp_ok (reply_with 204 None) \<and> body_json (reply_with 204 None) = None \<and>
   fst (jira_update_issue (always (Responds (reply_with 204 None))) ''PROJ-1'' (Some ''new'')
          None None None None None None tracker_world) =
     Inr (JObj [(''success'', JBool True), (''key'', JStr ''PROJ-1'')]) \<and>
   fst (jira_update_issue (always (Responds (reply_with 204 None))) ''PROJ-1'' (Some ''new'')
          None None None None None None tracker_world) \<noteq> Inr (err jira_NOT_CONFIGURED_MSG)"
  by (simp add: jira_update_issue_unfold no_update_fields_def detect_world probe_requests_def
      jira_request_configured send_request_def err_def)

end
